theory Spec2Isabelle
  imports Complex_Main
begin

section \<open>Values of the host language\<close>

text \<open>
  The virtual machine of \<^verbatim>\<open>VirtualMachine.ts\<close> keeps untyped JavaScript values
  on its operand stack (\<^verbatim>\<open>stack: any[]\<close>): numbers, strings, \<^verbatim>\<open>undefined\<close>,
  \<^verbatim>\<open>null\<close>, references to variable objects and type objects.  Numbers are
  IEEE doubles in the source; here a number is an exact real, one of the two infinities,
  or NaN.  Rounding, overflow of finite arithmetic and the sign of zero are not
  represented.
\<close>

datatype number = Fin real | PosInf | NegInf | NaN

datatype scalar = INTEGER | LONG | SINGLE | DOUBLE | STRING

datatype ty = ScalarType scalar | UserType string "(string \<times> scalar) list"

datatype val =
    VUndefined
  | VNull
  | VNum number
  | VStr string
  | VRef nat
  | VType ty

text \<open>\<^verbatim>\<open>enum RuntimeErrorCodes\<close> and \<^verbatim>\<open>class RuntimeError\<close>.\<close>

datatype RuntimeErrorCodes =
  DIVISION_BY_ZERO | STACK_OVERFLOW | STACK_UNDERFLOW | UKNOWN_SYSCALL | IO_ERROR

fun code_number :: "RuntimeErrorCodes \<Rightarrow> nat" where
  "code_number DIVISION_BY_ZERO = 101"
| "code_number STACK_OVERFLOW = 201"
| "code_number STACK_UNDERFLOW = 202"
| "code_number UKNOWN_SYSCALL = 301"
| "code_number IO_ERROR = 401"

type_synonym locus = "nat \<times> nat"

text \<open>
  A thrown value is either a \<^verbatim>\<open>RuntimeError\<close> (code, message, optional locus) or
  one of the errors the JavaScript runtime raises by itself.
\<close>

datatype exn =
    RuntimeError RuntimeErrorCodes string "locus option"
  | TypeError
  | RangeError
  | ReferenceError


subsection \<open>Arithmetic on numbers\<close>

definition trunc :: "real \<Rightarrow> int" where
  "trunc x = (if x < 0 then \<lceil>x\<rceil> else \<lfloor>x\<rfloor>)"

fun num_neg :: "number \<Rightarrow> number" where
  "num_neg (Fin a) = Fin (- a)"
| "num_neg PosInf = NegInf"
| "num_neg NegInf = PosInf"
| "num_neg NaN = NaN"

fun num_add :: "number \<Rightarrow> number \<Rightarrow> number" where
  "num_add NaN b = NaN"
| "num_add a NaN = NaN"
| "num_add (Fin a) (Fin b) = Fin (a + b)"
| "num_add (Fin a) b = b"
| "num_add a (Fin b) = a"
| "num_add PosInf PosInf = PosInf"
| "num_add NegInf NegInf = NegInf"
| "num_add PosInf NegInf = NaN"
| "num_add NegInf PosInf = NaN"

definition num_sub :: "number \<Rightarrow> number \<Rightarrow> number" where
  "num_sub a b = num_add a (num_neg b)"

text \<open>The sign of a non-NaN number: \<open>-1\<close>, \<open>0\<close> or \<open>1\<close>.\<close>

fun num_sign :: "number \<Rightarrow> int" where
  "num_sign (Fin a) = (if a < 0 then - 1 else if a = 0 then 0 else 1)"
| "num_sign PosInf = 1"
| "num_sign NegInf = - 1"
| "num_sign NaN = 0"

definition inf_of_sign :: "int \<Rightarrow> number" where
  "inf_of_sign k = (if k = 0 then NaN else if k < 0 then NegInf else PosInf)"

fun num_mul :: "number \<Rightarrow> number \<Rightarrow> number" where
  "num_mul NaN b = NaN"
| "num_mul a NaN = NaN"
| "num_mul (Fin a) (Fin b) = Fin (a * b)"
| "num_mul a b = inf_of_sign (num_sign a * num_sign b)"

fun num_div :: "number \<Rightarrow> number \<Rightarrow> number" where
  "num_div NaN b = NaN"
| "num_div a NaN = NaN"
| "num_div (Fin a) (Fin b) =
     (if b = 0 then inf_of_sign (num_sign (Fin a)) else Fin (a / b))"
| "num_div (Fin a) b = Fin 0"
| "num_div a (Fin b) = (if b < 0 then num_neg a else a)"
| "num_div a b = NaN"

text \<open>The remainder \<^verbatim>\<open>%\<close> takes the sign of the dividend.\<close>

fun num_rem :: "number \<Rightarrow> number \<Rightarrow> number" where
  "num_rem NaN b = NaN"
| "num_rem a NaN = NaN"
| "num_rem (Fin a) (Fin b) =
     (if b = 0 then NaN else Fin (a - b * of_int (trunc (a / b))))"
| "num_rem (Fin a) b = Fin a"
| "num_rem a b = NaN"

text \<open>
  The abstract relational comparison on numbers: \<open>None\<close> is the result
  \<^verbatim>\<open>undefined\<close> that a NaN operand produces.
\<close>

fun num_lt :: "number \<Rightarrow> number \<Rightarrow> bool option" where
  "num_lt NaN b = None"
| "num_lt a NaN = None"
| "num_lt (Fin a) (Fin b) = Some (a < b)"
| "num_lt a PosInf = Some (a \<noteq> PosInf)"
| "num_lt NegInf b = Some (b \<noteq> NegInf)"
| "num_lt a b = Some False"

fun num_eq :: "number \<Rightarrow> number \<Rightarrow> bool" where
  "num_eq NaN b = False"
| "num_eq a NaN = False"
| "num_eq a b = (a = b)"

text \<open>\<^verbatim>\<open>ToInt32\<close>, used by the bitwise operators.\<close>

fun to_int32 :: "number \<Rightarrow> int" where
  "to_int32 (Fin a) = (trunc a + 2 ^ 31) mod 2 ^ 32 - 2 ^ 31"
| "to_int32 n = 0"

text \<open>Strings compare by code units, lexicographically.\<close>

fun str_lt :: "string \<Rightarrow> string \<Rightarrow> bool" where
  "str_lt [] [] = False"
| "str_lt [] (y # ys) = True"
| "str_lt (x # xs) [] = False"
| "str_lt (x # xs) (y # ys) =
     (if (of_char x :: nat) < of_char y then True
      else if (of_char y :: nat) < of_char x then False
      else str_lt xs ys)"

subsection \<open>Strict equality and truthiness\<close>

fun strict_eq :: "val \<Rightarrow> val \<Rightarrow> bool" where
  "strict_eq VUndefined b = (b = VUndefined)"
| "strict_eq VNull b = (b = VNull)"
| "strict_eq (VNum a) b = (case b of VNum c \<Rightarrow> num_eq a c | _ \<Rightarrow> False)"
| "strict_eq (VStr a) b = (b = VStr a)"
| "strict_eq (VRef a) b = (b = VRef a)"
| "strict_eq (VType a) b = (b = VType a)"

fun truthy :: "val \<Rightarrow> bool" where
  "truthy VUndefined = False"
| "truthy VNull = False"
| "truthy (VNum (Fin a)) = (a \<noteq> 0)"
| "truthy (VNum NaN) = False"
| "truthy (VNum n) = True"
| "truthy (VStr s) = (s \<noteq> [])"
| "truthy (VRef a) = True"
| "truthy (VType t) = True"

section \<open>Objects, types and the host\<close>

text \<open>
  Objects live in a store and are referred to by address (\<open>VRef\<close>), so that two
  references to one object see each other's writes.  An object is its map of own
  properties.  A \<^verbatim>\<open>ScalarVariable\<close> has the properties \<^verbatim>\<open>type\<close> and
  \<^verbatim>\<open>value\<close>; the \<^verbatim>\<open>variables\<close> object of a stack frame maps names to
  whatever was bound to them.  Type objects are immutable and are values; properties
  written onto one are kept in \<open>type_props\<close>.  Plain-object lookups
  (\<^verbatim>\<open>variables[name]\<close>, \<^verbatim>\<open>shared[name]\<close>, the syscall tables) are modelled as
  maps: names inherited from \<^verbatim>\<open>Object.prototype\<close> are not represented.
\<close>

type_synonym obj = "string \<rightharpoonup> val"

record store =
  objs :: "nat \<Rightarrow> obj"
  next_ref :: nat
  type_props :: "ty \<Rightarrow> obj"

definition alloc :: "obj \<Rightarrow> store \<Rightarrow> nat \<times> store" where
  "alloc ob st =
     (next_ref st, st\<lparr>objs := (objs st)(next_ref st := ob), next_ref := Suc (next_ref st)\<rparr>)"

datatype 'a res = Ok 'a | Throw exn

text \<open>
  Calls made to the console and to the audio device (\<^verbatim>\<open>vm.cons\<close>, \<^verbatim>\<open>vm.audio\<close>),
  in the order they are made.  Both devices are outside the sources.
\<close>

datatype io_call =
    Cls
  | Locate val val
  | Color val val val
  | Screen val
  | Print string
  | Input
  | GetKeyFromBuffer
  | OnKey bool
  | CreateSprite val val val
  | OffsetSprite val val val
  | ScaleSprite val val val
  | RotateSprite val val
  | HomeSprite val val val
  | DisplaySprite val bool
  | AnimateSprite val val val bool
  | ClearSprite val
  | ConsReset "bool option"
  | PlayMusic val val
  | StopMusic

datatype window_state = WindowObject | WindowFalsy | WindowUndeclared

text \<open>
  Everything the machine asks of its surroundings and that is not in the sources is a
  field of the host: the conversions and library functions of the JavaScript runtime,
  the random numbers and the clock, what the console answers, and the methods of
  \<^verbatim>\<open>Types.ts\<close> that the specification leaves open (\<^verbatim>\<open>copy\<close>,
  \<^verbatim>\<open>IsNumericType\<close>, the \<^verbatim>\<open>ArrayVariable\<close> class).
\<close>

record host =
  str_to_number :: "string \<Rightarrow> number"
  number_to_string :: "real \<Rightarrow> string"
  obj_to_string :: "store \<Rightarrow> val \<Rightarrow> string"
  proto_prop :: "store \<Rightarrow> val \<Rightarrow> string \<Rightarrow> val"
  builtin :: "string \<Rightarrow> store \<Rightarrow> val list \<Rightarrow> val res"
  math_random :: "nat \<Rightarrow> real"
  date_now :: "nat \<Rightarrow> nat \<times> nat \<times> nat \<times> nat"
  cons_x :: "io_call list \<Rightarrow> int"
  cons_key :: "io_call list \<Rightarrow> val"
  window :: window_state
  type_copy :: "ty \<Rightarrow> val \<Rightarrow> store \<Rightarrow> val res \<times> store"
  IsNumericType :: "val \<Rightarrow> bool res"
  array_new :: "val \<Rightarrow> (val \<times> val) list \<Rightarrow> store \<Rightarrow> val res \<times> store"
  array_rank :: "store \<Rightarrow> val \<Rightarrow> nat res"
  array_access :: "store \<Rightarrow> val \<Rightarrow> val list \<Rightarrow> val res"

subsection \<open>Property access\<close>

fun get_prop :: "host \<Rightarrow> store \<Rightarrow> val \<Rightarrow> string \<Rightarrow> val res" where
  "get_prop h st VUndefined p = Throw TypeError"
| "get_prop h st VNull p = Throw TypeError"
| "get_prop h st (VRef a) p =
     Ok (case objs st a p of Some v \<Rightarrow> v | None \<Rightarrow> proto_prop h st (VRef a) p)"
| "get_prop h st (VType t) p =
     Ok (case type_props st t p of Some v \<Rightarrow> v | None \<Rightarrow> proto_prop h st (VType t) p)"
| "get_prop h st (VStr s) p =
     Ok (if p = ''length'' then VNum (Fin (of_nat (length s)))
         else if p = ''value'' \<or> p = ''type'' then VUndefined
         else proto_prop h st (VStr s) p)"
| "get_prop h st (VNum n) p =
     Ok (if p = ''length'' \<or> p = ''value'' \<or> p = ''type'' then VUndefined
         else proto_prop h st (VNum n) p)"

text \<open>
  The module is compiled in strict mode, where assigning a property of a primitive
  value throws.
\<close>

fun set_prop :: "store \<Rightarrow> val \<Rightarrow> string \<Rightarrow> val \<Rightarrow> unit res \<times> store" where
  "set_prop st (VRef a) p v = (Ok (), st\<lparr>objs := (objs st)(a := (objs st a)(p \<mapsto> v))\<rparr>)"
| "set_prop st (VType t) p v =
     (Ok (), st\<lparr>type_props := (type_props st)(t := (type_props st t)(p \<mapsto> v))\<rparr>)"
| "set_prop st x p v = (Throw TypeError, st)"

subsection \<open>Conversions and operators\<close>

fun to_primitive :: "host \<Rightarrow> store \<Rightarrow> val \<Rightarrow> val" where
  "to_primitive h st (VRef a) = VStr (obj_to_string h st (VRef a))"
| "to_primitive h st (VType t) = VStr (obj_to_string h st (VType t))"
| "to_primitive h st v = v"

fun prim_to_number :: "host \<Rightarrow> val \<Rightarrow> number" where
  "prim_to_number h VUndefined = NaN"
| "prim_to_number h VNull = Fin 0"
| "prim_to_number h (VNum n) = n"
| "prim_to_number h (VStr s) = str_to_number h s"
| "prim_to_number h v = NaN"

definition to_number :: "host \<Rightarrow> store \<Rightarrow> val \<Rightarrow> number" where
  "to_number h st v = prim_to_number h (to_primitive h st v)"

fun num_to_string :: "host \<Rightarrow> number \<Rightarrow> string" where
  "num_to_string h (Fin a) = number_to_string h a"
| "num_to_string h PosInf = ''Infinity''"
| "num_to_string h NegInf = ''-Infinity''"
| "num_to_string h NaN = ''NaN''"

fun prim_to_string :: "host \<Rightarrow> val \<Rightarrow> string" where
  "prim_to_string h VUndefined = ''undefined''"
| "prim_to_string h VNull = ''null''"
| "prim_to_string h (VNum n) = num_to_string h n"
| "prim_to_string h (VStr s) = s"
| "prim_to_string h v = []"

definition to_string :: "host \<Rightarrow> store \<Rightarrow> val \<Rightarrow> string" where
  "to_string h st v = prim_to_string h (to_primitive h st v)"

text \<open>\<open>js_lt h st a b\<close> is the comparison behind \<^verbatim>\<open>a < b\<close>.\<close>

definition js_lt :: "host \<Rightarrow> store \<Rightarrow> val \<Rightarrow> val \<Rightarrow> bool option" where
  "js_lt h st a b =
     (let pa = to_primitive h st a; pb = to_primitive h st b
      in case (pa, pb) of
           (VStr x, VStr y) \<Rightarrow> Some (str_lt x y)
         | _ \<Rightarrow> num_lt (prim_to_number h pa) (prim_to_number h pb))"

definition js_less :: "host \<Rightarrow> store \<Rightarrow> val \<Rightarrow> val \<Rightarrow> bool" where
  "js_less h st a b = (js_lt h st a b = Some True)"

definition js_greater :: "host \<Rightarrow> store \<Rightarrow> val \<Rightarrow> val \<Rightarrow> bool" where
  "js_greater h st a b = (js_lt h st b a = Some True)"

definition js_less_eq :: "host \<Rightarrow> store \<Rightarrow> val \<Rightarrow> val \<Rightarrow> bool" where
  "js_less_eq h st a b = (js_lt h st b a = Some False)"

definition js_greater_eq :: "host \<Rightarrow> store \<Rightarrow> val \<Rightarrow> val \<Rightarrow> bool" where
  "js_greater_eq h st a b = (js_lt h st a b = Some False)"

fun is_VStr :: "val \<Rightarrow> bool" where
  "is_VStr (VStr s) = True"
| "is_VStr v = False"

definition js_add :: "host \<Rightarrow> store \<Rightarrow> val \<Rightarrow> val \<Rightarrow> val" where
  "js_add h st a b =
     (let pa = to_primitive h st a; pb = to_primitive h st b
      in if is_VStr pa \<or> is_VStr pb then VStr (prim_to_string h pa @ prim_to_string h pb)
         else VNum (num_add (prim_to_number h pa) (prim_to_number h pb)))"

definition js_sub :: "host \<Rightarrow> store \<Rightarrow> val \<Rightarrow> val \<Rightarrow> val" where
  "js_sub h st a b = VNum (num_sub (to_number h st a) (to_number h st b))"

definition js_mul :: "host \<Rightarrow> store \<Rightarrow> val \<Rightarrow> val \<Rightarrow> val" where
  "js_mul h st a b = VNum (num_mul (to_number h st a) (to_number h st b))"

definition js_div :: "host \<Rightarrow> store \<Rightarrow> val \<Rightarrow> val \<Rightarrow> val" where
  "js_div h st a b = VNum (num_div (to_number h st a) (to_number h st b))"

definition js_rem :: "host \<Rightarrow> store \<Rightarrow> val \<Rightarrow> val \<Rightarrow> val" where
  "js_rem h st a b = VNum (num_rem (to_number h st a) (to_number h st b))"

definition js_bitand :: "host \<Rightarrow> store \<Rightarrow> val \<Rightarrow> val \<Rightarrow> val" where
  "js_bitand h st a b =
     VNum (Fin (of_int (and (to_int32 (to_number h st a)) (to_int32 (to_number h st b)))))"

definition js_bitor :: "host \<Rightarrow> store \<Rightarrow> val \<Rightarrow> val \<Rightarrow> val" where
  "js_bitor h st a b =
     VNum (Fin (of_int (or (to_int32 (to_number h st a)) (to_int32 (to_number h st b)))))"

definition js_bitnot :: "host \<Rightarrow> store \<Rightarrow> val \<Rightarrow> val" where
  "js_bitnot h st a = VNum (Fin (of_int (not (to_int32 (to_number h st a)))))"

text \<open>
  How often the body of \<^verbatim>\<open>for (i = 0; i < n; i++)\<close> runs; \<open>None\<close> when the
  loop has no end.
\<close>

definition loop_count :: "host \<Rightarrow> store \<Rightarrow> val \<Rightarrow> nat option" where
  "loop_count h st n =
     (case to_number h st n of
        Fin r \<Rightarrow> Some (if r \<le> 0 then 0 else nat \<lceil>r\<rceil>)
      | PosInf \<Rightarrow> None
      | _ \<Rightarrow> Some 0)"

subsection \<open>Types\<close>

text \<open>
  Modelled from the spec: \<^verbatim>\<open>DeriveTypeNameFromVariable\<close> of \<^verbatim>\<open>Types.ts\<close>, which
  is not in the sources.  The final sigil maps \<^verbatim>\<open>%\<close> to INTEGER, \<^verbatim>\<open>&\<close> to LONG,
  \<^verbatim>\<open>!\<close> to SINGLE, \<^verbatim>\<open>#\<close> to DOUBLE and \<^verbatim>\<open>$\<close> to STRING; a bare identifier
  gives null.
\<close>

definition DeriveTypeNameFromVariable :: "string \<Rightarrow> string option" where
  "DeriveTypeNameFromVariable name =
     (if name = [] then None
      else if last name = CHR ''%'' then Some ''INTEGER''
      else if last name = CHR ''&'' then Some ''LONG''
      else if last name = CHR ''!'' then Some ''SINGLE''
      else if last name = CHR ''#'' then Some ''DOUBLE''
      else if last name = CHR ''$'' then Some ''STRING''
      else None)"

text \<open>
  Modelled from the spec: \<^verbatim>\<open>createInstance\<close> of the type classes of
  \<^verbatim>\<open>Types.ts\<close>.  Every scalar type has a canonical zero value; an instance of a
  user-defined type has one variable per field.
\<close>

fun zero_value :: "scalar \<Rightarrow> val" where
  "zero_value STRING = VStr []"
| "zero_value k = VNum (Fin 0)"

definition ScalarVariable :: "val \<Rightarrow> val \<Rightarrow> obj" where
  "ScalarVariable t v = [''type'' \<mapsto> t, ''value'' \<mapsto> v]"

fun create_fields :: "(string \<times> scalar) list \<Rightarrow> obj \<Rightarrow> store \<Rightarrow> obj \<times> store" where
  "create_fields [] ob st = (ob, st)"
| "create_fields ((f, k) # fs) ob st =
     (let (a, st1) = alloc (ScalarVariable (VType (ScalarType k)) (zero_value k)) st
      in create_fields fs (ob(f \<mapsto> VRef a)) st1)"

fun createInstance :: "ty \<Rightarrow> store \<Rightarrow> val \<times> store" where
  "createInstance (ScalarType k) st = (zero_value k, st)"
| "createInstance (UserType n fs) st =
     (let (ob, st1) = create_fields fs Map.empty st;
          (a, st2) = alloc ob st1
      in (VRef a, st2))"

text \<open>\<^verbatim>\<open>t.createInstance()\<close> and \<^verbatim>\<open>t.copy(v)\<close> for an arbitrary value \<open>t\<close>.\<close>

fun call_createInstance :: "val \<Rightarrow> store \<Rightarrow> val res \<times> store" where
  "call_createInstance (VType t) st = (let (v, st1) = createInstance t st in (Ok v, st1))"
| "call_createInstance x st = (Throw TypeError, st)"

fun call_copy :: "host \<Rightarrow> val \<Rightarrow> val \<Rightarrow> store \<Rightarrow> val res \<times> store" where
  "call_copy h (VType t) v st = type_copy h t v st"
| "call_copy h x v st = (Throw TypeError, st)"

section \<open>The state of the virtual machine\<close>

text \<open>
  \<^verbatim>\<open>class StackFrame\<close>: the address to return to and the \<^verbatim>\<open>variables\<close>
  object, held by reference.  A frame is never changed once it is on the call stack, so
  frames are values; their variable maps are objects of the store.
\<close>

record StackFrame =
  return_pc :: nat
  variables :: nat

datatype instr =
    FORLOOP nat
  | COPYTOP
  | RESTORE nat
  | POPVAL string
  | POP
  | PUSHREF string
  | PUSHVALUE string
  | PUSHTYPE string
  | POPVAR string
  | NEW string
  | END
  | UNARY_OP string
  | OP_EQ
  | OP_LT
  | OP_LE
  | OP_GT
  | OP_GE
  | OP_NE
  | AND
  | OR
  | OP_ADD
  | OP_SUB
  | OP_MUL
  | OP_DIV
  | MOD
  | BZ nat
  | BNZ nat
  | JMP nat
  | CALL nat
  | GOSUB nat
  | RET
  | PUSHCONST val
  | ARRAY_DEREF val
  | MEMBER_DEREF string
  | MEMBER_VALUE string
  | ASSIGN
  | SYSCALL string

text \<open>An element of the bytecode: the instruction with its argument, and its locus.\<close>

record Instruction =
  instr :: instr
  locus :: locus

record QBasicProgram =
  prog_instructions :: "Instruction list"
  prog_types :: "string \<rightharpoonup> ty"
  prog_defaultType :: "ty option"
  prog_data :: "val list"
  prog_shared :: "string \<Rightarrow> bool"
  testMode :: bool

text \<open>
  What a pending completion does when the host delivers it: \<open>CbResume\<close> calls
  \<^verbatim>\<open>vm.resume()\<close>; \<open>CbKey\<close> first removes the key handler; \<open>CbInput a\<close>
  stores the line read into \<^verbatim>\<open>a.value\<close> first.
\<close>

datatype callback = CbResume | CbKey | CbInput val

text \<open>
  The fields of \<^verbatim>\<open>class VirtualMachine\<close>, followed by what the model adds: the
  object store, the \<^verbatim>\<open>error\<close> events emitted so far, the calls made to the
  devices, the live interval timers of the host, the completions still pending, and the
  number of random numbers and dates drawn.
\<close>

record vm =
  stack :: "val list"
  pc :: nat
  callstack :: "StackFrame list"
  instructions :: "Instruction list"
  types :: "string \<rightharpoonup> ty"
  shared :: "string \<Rightarrow> bool"
  dataPtr :: nat
  data :: "val list"
  asynchronous :: bool
  suspended :: bool
  interval :: "nat option"
  instructionsPerInterval :: nat
  lastRandomNumber :: val
  defaultType :: "ty option"
  frame :: "StackFrame option"
  audio :: bool
  store :: store
  events :: "exn list"
  io :: "io_call list"
  timers :: "nat list"
  timer_seq :: nat
  pending :: "callback list"
  draws :: nat

subsection \<open>The operand stack\<close>

text \<open>
  The stack is a JavaScript array with its top at the end.  \<^verbatim>\<open>pop()\<close> on an empty
  array returns \<^verbatim>\<open>undefined\<close>, and so does reading an index out of range.
\<close>

definition push :: "val \<Rightarrow> vm \<Rightarrow> vm" where
  "push v s = s\<lparr>stack := stack s @ [v]\<rparr>"

definition pop :: "vm \<Rightarrow> val \<times> vm" where
  "pop s = (if stack s = [] then (VUndefined, s)
            else (last (stack s), s\<lparr>stack := butlast (stack s)\<rparr>))"

definition stack_at :: "vm \<Rightarrow> int \<Rightarrow> val" where
  "stack_at s i = (if 0 \<le> i \<and> i < int (length (stack s)) then stack s ! nat i else VUndefined)"

text \<open>\<^verbatim>\<open>for (i = 0; i < n; i++) args.unshift(vm.stack.pop())\<close>\<close>

fun pop_args :: "nat \<Rightarrow> vm \<Rightarrow> val list \<times> vm" where
  "pop_args 0 s = ([], s)"
| "pop_args (Suc n) s =
     (let (v, s1) = pop s; (vs, s2) = pop_args n s1 in (vs @ [v], s2))"

text \<open>Sequencing of steps that may throw: a throw ends the sequence in the state reached.\<close>

fun bind :: "'a res \<times> vm \<Rightarrow> ('a \<Rightarrow> vm \<Rightarrow> 'b res \<times> vm) \<Rightarrow> 'b res \<times> vm" where
  "bind (Ok a, s) f = f a s"
| "bind (Throw e, s) f = (Throw e, s)"

text \<open>\<^verbatim>\<open>vm.stack.pop().value\<close>\<close>

definition pop_value :: "host \<Rightarrow> vm \<Rightarrow> val res \<times> vm" where
  "pop_value h s = (let (v, s1) = pop s in (get_prop h (store s1) v ''value'', s1))"

definition put_prop :: "val \<Rightarrow> string \<Rightarrow> val \<Rightarrow> vm \<Rightarrow> unit res \<times> vm" where
  "put_prop target p v s =
     (let (r, st) = set_prop (store s) target p v in (r, s\<lparr>store := st\<rparr>))"

definition cons_call :: "io_call \<Rightarrow> vm \<Rightarrow> vm" where
  "cons_call c s = s\<lparr>io := io s @ [c]\<rparr>"

subsection \<open>Suspension\<close>

definition clearInterval :: "nat option \<Rightarrow> vm \<Rightarrow> vm" where
  "clearInterval i s =
     (case i of None \<Rightarrow> s | Some k \<Rightarrow> s\<lparr>timers := removeAll k (timers s)\<rparr>)"

definition suspend :: "vm \<Rightarrow> vm" where
  "suspend s =
     (let s1 = s\<lparr>suspended := True\<rparr>
      in if asynchronous s1 then clearInterval (interval s1) s1 else s1)"

definition add_pending :: "callback \<Rightarrow> vm \<Rightarrow> vm" where
  "add_pending c s = s\<lparr>pending := pending s @ [c]\<rparr>"

subsection \<open>Variables\<close>

definition setVariable :: "string \<Rightarrow> val \<Rightarrow> vm \<Rightarrow> unit res \<times> vm" where
  "setVariable name v s =
     (case (if shared s name
            then (if callstack s = [] then None else Some (callstack s ! 0))
            else frame s) of
        None \<Rightarrow> (Throw TypeError, s)
      | Some f \<Rightarrow> put_prop (VRef (variables f)) name v s)"

text \<open>The branch of \<^verbatim>\<open>getVariable\<close> that must create the variable.\<close>

definition create_variable :: "StackFrame \<Rightarrow> string \<Rightarrow> vm \<Rightarrow> val res \<times> vm" where
  "create_variable f name s =
     (case (case DeriveTypeNameFromVariable name of
              None \<Rightarrow> defaultType s
            | Some typeName \<Rightarrow> types s typeName) of
        None \<Rightarrow> (Throw TypeError, s)
      | Some t \<Rightarrow>
          (let (inst, st1) = createInstance t (store s);
               (a, st2) = alloc (ScalarVariable (VType t) inst) st1;
               (r, st3) = set_prop st2 (VRef (variables f)) name (VRef a)
           in (Ok (VRef a), s\<lparr>store := st3\<rparr>)))"

definition getVariable :: "string \<Rightarrow> vm \<Rightarrow> val res \<times> vm" where
  "getVariable name s =
     (case (if shared s name
            then (if callstack s = [] then None else Some (callstack s ! 0))
            else frame s) of
        None \<Rightarrow> (Throw TypeError, s)
      | Some f \<Rightarrow>
          (case objs (store s) (variables f) name of
             Some v \<Rightarrow> if truthy v then (Ok v, s) else create_variable f name s
           | None \<Rightarrow> create_variable f name s))"

section \<open>System functions\<close>

text \<open>
  The \<^verbatim>\<open>action\<close> of each entry of \<^verbatim>\<open>SystemFunctions\<close>.  A loop whose bound
  is infinite is ended by the RangeError the runtime raises when the array or string it
  extends can grow no further.
\<close>

definition pop_counted :: "host \<Rightarrow> val \<Rightarrow> vm \<Rightarrow> val list res \<times> vm" where
  "pop_counted h n s =
     (case loop_count h (store s) n of
        None \<Rightarrow> (Throw RangeError, s\<lparr>stack := []\<rparr>)
      | Some k \<Rightarrow> (let (args, s1) = pop_args k s in (Ok args, s1)))"

definition getKeyFromBuffer :: "host \<Rightarrow> vm \<Rightarrow> val \<times> vm" where
  "getKeyFromBuffer h s = (cons_key h (io s), cons_call GetKeyFromBuffer s)"

definition RND_action :: "host \<Rightarrow> vm \<Rightarrow> unit res \<times> vm" where
  "RND_action h s =
     (let (numArgs, s1) = pop s;
          (n, s2) = (if strict_eq numArgs (VNum (Fin 1)) then pop s1 else (VNum (Fin 1), s1))
      in if strict_eq n (VNum (Fin 0)) then (Ok (), push (lastRandomNumber s2) s2)
         else (Ok (), push (VNum (Fin (math_random h (draws s2)))) (s2\<lparr>draws := Suc (draws s2)\<rparr>)))"

definition CHR_action :: "host \<Rightarrow> vm \<Rightarrow> unit res \<times> vm" where
  "CHR_action h s =
     (let (num, s1) = pop s
      in bind (builtin h ''String.fromCharCode'' (store s1) [num], s1)
           (\<lambda>r s2. (Ok (), push r s2)))"

definition INKEY_action :: "host \<Rightarrow> vm \<Rightarrow> unit res \<times> vm" where
  "INKEY_action h s =
     (let (code, s1) = getKeyFromBuffer h s
      in if \<not> strict_eq code (VNum (Fin (- 1))) then
           bind (builtin h ''String.fromCodePoint'' (store s1) [code], s1)
             (\<lambda>result s2.
                if strict_eq code (VNum (Fin 0)) then
                  (let (code2, s3) = getKeyFromBuffer h s2
                   in bind (builtin h ''String.fromCharCode'' (store s3) [code2], s3)
                        (\<lambda>c s4. (Ok (), push (js_add h (store s4) result c) s4)))
                else (Ok (), push result s2))
         else (Ok (), push (VStr []) s1))"

definition LEN_action :: "host \<Rightarrow> vm \<Rightarrow> unit res \<times> vm" where
  "LEN_action h s =
     (let (v, s1) = pop s
      in bind (get_prop h (store s1) v ''length'', s1) (\<lambda>r s2. (Ok (), push r s2)))"

definition MID_action :: "host \<Rightarrow> vm \<Rightarrow> unit res \<times> vm" where
  "MID_action h s =
     (let (numArgs, s1) = pop s;
          (len, s2) = (if strict_eq numArgs (VNum (Fin 3)) then pop s1 else (VUndefined, s1));
          (start, s3) = pop s2;
          (str, s4) = pop s3
      in bind (builtin h ''substr'' (store s4)
                 [str, js_sub h (store s4) start (VNum (Fin 1)), len], s4)
           (\<lambda>r s5. (Ok (), push r s5)))"

definition LEFT_action :: "host \<Rightarrow> vm \<Rightarrow> unit res \<times> vm" where
  "LEFT_action h s =
     (let (num, s1) = pop s;
          (str, s2) = pop s1
      in bind (builtin h ''substr'' (store s2) [str, VNum (Fin 0), num], s2)
           (\<lambda>r s3. (Ok (), push r s3)))"

definition RIGHT_action :: "host \<Rightarrow> vm \<Rightarrow> unit res \<times> vm" where
  "RIGHT_action h s =
     (let (num, s1) = pop s;
          (str, s2) = pop s1
      in bind (get_prop h (store s2) str ''length'', s2)
           (\<lambda>len s3.
              bind (builtin h ''substr'' (store s3) [str, js_sub h (store s3) len num], s3)
                (\<lambda>r s4. (Ok (), push r s4))))"

definition TIMER_action :: "host \<Rightarrow> vm \<Rightarrow> unit res \<times> vm" where
  "TIMER_action h s =
     (let (ms, sec, mins, hours) = date_now h (draws s);
          result = real ms / 1000 + real sec + real mins * 60 + real hours * 60 * 60
      in (Ok (), push (VNum (Fin result)) (s\<lparr>draws := Suc (draws s)\<rparr>)))"

definition PEEK_action :: "host \<Rightarrow> vm \<Rightarrow> unit res \<times> vm" where
  "PEEK_action h s = (let (v, s1) = pop s in (Ok (), push (VNum (Fin 0)) s1))"

definition LCASE_action :: "host \<Rightarrow> vm \<Rightarrow> unit res \<times> vm" where
  "LCASE_action h s =
     (let (str, s1) = pop s
      in bind (builtin h ''toLowerCase'' (store s1) [str], s1) (\<lambda>r s2. (Ok (), push r s2)))"

definition UCASE_action :: "host \<Rightarrow> vm \<Rightarrow> unit res \<times> vm" where
  "UCASE_action h s =
     (let (str, s1) = pop s
      in bind (builtin h ''toUpperCase'' (store s1) [str], s1) (\<lambda>r s2. (Ok (), push r s2)))"

definition STR_action :: "host \<Rightarrow> vm \<Rightarrow> unit res \<times> vm" where
  "STR_action h s =
     (let (num, s1) = pop s in (Ok (), push (js_add h (store s1) (VStr []) num) s1))"

definition SPACE_action :: "host \<Rightarrow> vm \<Rightarrow> unit res \<times> vm" where
  "SPACE_action h s =
     (let (numSpaces, s1) = pop s
      in case loop_count h (store s1) numSpaces of
           None \<Rightarrow> (Throw RangeError, s1)
         | Some k \<Rightarrow> (Ok (), push (VStr (replicate k (CHR '' ''))) s1))"

definition VAL_action :: "host \<Rightarrow> vm \<Rightarrow> unit res \<times> vm" where
  "VAL_action h s =
     (let (v, s1) = pop s
      in bind (builtin h ''parseFloat'' (store s1) [v], s1) (\<lambda>r s2. (Ok (), push r s2)))"

fun num_floor :: "number \<Rightarrow> number" where
  "num_floor (Fin a) = Fin (of_int \<lfloor>a\<rfloor>)"
| "num_floor n = n"

definition INT_action :: "host \<Rightarrow> vm \<Rightarrow> unit res \<times> vm" where
  "INT_action h s =
     (let (v, s1) = pop s
      in (Ok (), push (VNum (num_floor (to_number h (store s1) v))) s1))"

definition SystemFunctions :: "string \<Rightarrow> (host \<Rightarrow> vm \<Rightarrow> unit res \<times> vm) option" where
  "SystemFunctions name =
     (if name = ''RND'' then Some RND_action
      else if name = ''CHR$'' then Some CHR_action
      else if name = ''INKEY$'' then Some INKEY_action
      else if name = ''LEN'' then Some LEN_action
      else if name = ''MID$'' then Some MID_action
      else if name = ''LEFT$'' then Some LEFT_action
      else if name = ''RIGHT$'' then Some RIGHT_action
      else if name = ''TIMER'' then Some TIMER_action
      else if name = ''PEEK'' then Some PEEK_action
      else if name = ''LCASE$'' then Some LCASE_action
      else if name = ''UCASE$'' then Some UCASE_action
      else if name = ''STR$'' then Some STR_action
      else if name = ''SPACE$'' then Some SPACE_action
      else if name = ''VAL'' then Some VAL_action
      else if name = ''INT'' then Some INT_action
      else None)"

section \<open>System subroutines\<close>

text \<open>
  The \<^verbatim>\<open>action\<close> of each entry of \<^verbatim>\<open>SystemSubroutines\<close>.  Output to the
  debug console and to the trace buffer (a no-op while \<^verbatim>\<open>DEBUG\<close> is false) is left
  out.
\<close>

definition BEEP_action :: "host \<Rightarrow> vm \<Rightarrow> unit res \<times> vm" where
  "BEEP_action h s = (Ok (), s)"

definition CLS_action :: "host \<Rightarrow> vm \<Rightarrow> unit res \<times> vm" where
  "CLS_action h s = (Ok (), cons_call Cls s)"

definition RANDOMIZE_action :: "host \<Rightarrow> vm \<Rightarrow> unit res \<times> vm" where
  "RANDOMIZE_action h s = (let (v, s1) = pop s in (Ok (), s1))"

definition PLAY_action :: "host \<Rightarrow> vm \<Rightarrow> unit res \<times> vm" where
  "PLAY_action h s =
     (let (argCount, s1) = pop s
      in bind (pop_value h s1)
           (\<lambda>music s2.
              bind (if js_greater h (store s2) argCount (VNum (Fin 1)) then pop_value h s2
                    else (Ok VUndefined, s2))
                (\<lambda>repeat s3.
                   if audio s3 then
                     (Ok (), add_pending CbResume
                        (cons_call (PlayMusic music (if truthy repeat then repeat else VNum (Fin 1)))
                           (suspend s3)))
                   else (Ok (), s3))))"

definition BGMPLAY_action :: "host \<Rightarrow> vm \<Rightarrow> unit res \<times> vm" where
  "BGMPLAY_action h s =
     (let (argCount, s1) = pop s
      in bind (pop_value h s1)
           (\<lambda>music s2.
              bind (if js_greater h (store s2) argCount (VNum (Fin 1)) then pop_value h s2
                    else (Ok VUndefined, s2))
                (\<lambda>repeat s3.
                   if audio s3 then (Ok (), cons_call (PlayMusic music repeat) s3)
                   else (Ok (), s3))))"

definition BGMSTOP_action :: "host \<Rightarrow> vm \<Rightarrow> unit res \<times> vm" where
  "BGMSTOP_action h s = (if audio s then (Ok (), cons_call StopMusic s) else (Ok (), s))"

definition SLEEP_action :: "host \<Rightarrow> vm \<Rightarrow> unit res \<times> vm" where
  "SLEEP_action h s =
     (let (argCount, s1) = pop s;
          s2 = suspend s1
      in if strict_eq argCount (VNum (Fin 1)) then
           bind (pop_value h s2) (\<lambda>sleep s3. (Ok (), add_pending CbResume s3))
         else (Ok (), add_pending CbKey (cons_call (OnKey True) s2)))"

definition SYSTEM_action :: "host \<Rightarrow> vm \<Rightarrow> unit res \<times> vm" where
  "SYSTEM_action h s = (Ok (), s)"

subsection \<open>\<^verbatim>\<open>print_using\<close>\<close>

definition is_field_char :: "char \<Rightarrow> bool" where
  "is_field_char c = (c = CHR ''#'' \<or> c = CHR '','')"

text \<open>
  The third inner loop: every \<^verbatim>\<open>#\<close> of the field takes the next character of the
  argument (\<^verbatim>\<open>undefined\<close> once they are used up), every comma is copied.
\<close>

fun fill_field :: "string \<Rightarrow> string \<Rightarrow> string" where
  "fill_field [] ds = []"
| "fill_field (c # cs) ds =
     (if c = CHR ''#'' then
        (case ds of [] \<Rightarrow> ''undefined'' @ fill_field cs []
                  | d # ds' \<Rightarrow> d # fill_field cs ds')
      else c # fill_field cs ds)"

definition pad_digits :: "string \<Rightarrow> nat \<Rightarrow> string" where
  "pad_digits a digitCount =
     (if length a > digitCount then drop (length a - digitCount) a
      else replicate (digitCount - length a) (CHR '' '') @ a)"

function format_using :: "host \<Rightarrow> store \<Rightarrow> val list \<Rightarrow> string \<Rightarrow> string \<Rightarrow> string res" where
  "format_using h st args [] out = Ok out"
| "format_using h st args (c # cs) out =
     (if c = CHR ''#'' then
        (case args of
           [] \<Rightarrow> Ok out
         | a # as \<Rightarrow>
             (case get_prop h st a ''type'' of
                Throw e \<Rightarrow> Throw e
              | Ok t \<Rightarrow>
                  (case IsNumericType h t of
                     Throw e \<Rightarrow> Throw e
                   | Ok numeric \<Rightarrow>
                       if \<not> numeric then Ok out
                       else
                         (case get_prop h st a ''value'' of
                            Throw e \<Rightarrow> Throw e
                          | Ok v \<Rightarrow>
                              format_using h st as (dropWhile is_field_char cs)
                                (out @ fill_field (c # takeWhile is_field_char cs)
                                   (pad_digits (to_string h st v)
                                      (length (filter (\<lambda>x. x = CHR ''#'')
                                         (c # takeWhile is_field_char cs)))))))))
      else format_using h st args cs (out @ [c]))"
  by pat_completeness auto
termination
  by (relation "measure (\<lambda>(h, st, args, fmt, out). length fmt)")
     (auto intro: le_imp_less_Suc length_dropWhile_le)

definition format_output :: "host \<Rightarrow> store \<Rightarrow> val \<Rightarrow> val list \<Rightarrow> string res" where
  "format_output h st formatString args =
     (case formatString of
        VStr fs \<Rightarrow> format_using h st args fs []
      | _ \<Rightarrow>
          (case get_prop h st formatString ''length'' of
             Throw e \<Rightarrow> Throw e
           | Ok len \<Rightarrow> if js_less h st (VNum (Fin 0)) len then Throw TypeError else Ok []))"

text \<open>\<^verbatim>\<open>while (++x % 14) spaces += ' '\<close>\<close>

definition comma_spaces :: "int \<Rightarrow> string" where
  "comma_spaces x = replicate (nat ((13 - x) mod 14)) (CHR '' '')"

definition print_using_action :: "host \<Rightarrow> vm \<Rightarrow> unit res \<times> vm" where
  "print_using_action h s =
     (let (argCount, s1) = pop s;
          (terminator, s2) = pop s1
      in bind (pop_counted h (js_sub h (store s2) argCount (VNum (Fin 1))) s2)
           (\<lambda>args s3.
              bind (get_prop h (store s3) (case args of [] \<Rightarrow> VUndefined | a # as \<Rightarrow> a) ''value'', s3)
                (\<lambda>formatString s4.
                   bind (format_output h (store s4) formatString (tl args), s4)
                     (\<lambda>output s5.
                        let s6 = cons_call (Print output) s5
                        in if strict_eq terminator (VStr '','') then
                             (Ok (), cons_call (Print (comma_spaces (cons_x h (io s6)))) s6)
                           else if \<not> strict_eq terminator (VStr '';'') then
                             (Ok (), cons_call (Print [CHR 0x0A]) s6)
                           else (Ok (), s6)))))"

subsection \<open>The other subroutines\<close>

definition LOCATE_action :: "host \<Rightarrow> vm \<Rightarrow> unit res \<times> vm" where
  "LOCATE_action h s =
     bind (pop_value h s)
       (\<lambda>col s1. bind (pop_value h s1) (\<lambda>row s2. (Ok (), cons_call (Locate row col) s2)))"

definition COLOR_action :: "host \<Rightarrow> vm \<Rightarrow> unit res \<times> vm" where
  "COLOR_action h s =
     (let (argCount, s1) = pop s
      in bind (if js_greater h (store s1) argCount (VNum (Fin 2)) then pop_value h s1
               else (Ok VNull, s1))
           (\<lambda>bo s2.
              bind (if js_greater h (store s2) argCount (VNum (Fin 1)) then pop_value h s2
                    else (Ok VNull, s2))
                (\<lambda>bg s3.
                   bind (pop_value h s3) (\<lambda>fg s4. (Ok (), cons_call (Color fg bg bo) s4)))))"

text \<open>
  The body of the second loop of \<^verbatim>\<open>READ\<close>, for the arguments still to be served.
  The right-hand side \<^verbatim>\<open>vm.data[vm.dataPtr++]\<close> is evaluated before the property is
  stored.
\<close>

fun read_args :: "host \<Rightarrow> val list \<Rightarrow> vm \<Rightarrow> unit res \<times> vm" where
  "read_args h [] s = (Ok (), s)"
| "read_args h (a # as) s =
     (let d = (if dataPtr s < length (data s) then data s ! dataPtr s else VUndefined);
          s1 = s\<lparr>dataPtr := Suc (dataPtr s)\<rparr>
      in bind (put_prop a ''value'' d s1)
           (\<lambda>u s2.
              bind (get_prop h (store s2) a ''value'', s2)
                (\<lambda>v s3.
                   bind (if strict_eq v VNull then
                           bind (get_prop h (store s3) a ''type'', s3)
                             (\<lambda>t s4.
                                bind (let (r, st) = call_createInstance t (store s4)
                                      in (r, s4\<lparr>store := st\<rparr>))
                                  (\<lambda>inst s5. put_prop a ''value'' inst s5))
                         else (Ok (), s3))
                     (\<lambda>u s6. read_args h as s6))))"

definition READ_action :: "host \<Rightarrow> vm \<Rightarrow> unit res \<times> vm" where
  "READ_action h s =
     (let (argCount, s1) = pop s
      in bind (pop_counted h argCount s1) (\<lambda>args s2. read_args h args s2))"

definition SCREEN_action :: "host \<Rightarrow> vm \<Rightarrow> unit res \<times> vm" where
  "SCREEN_action h s = bind (pop_value h s) (\<lambda>mode s1. (Ok (), cons_call (Screen mode) s1))"

definition INPUT_action :: "host \<Rightarrow> vm \<Rightarrow> unit res \<times> vm" where
  "INPUT_action h s =
     (let (argCount, s1) = pop s
      in bind (pop_counted h argCount s1)
           (\<lambda>args s2.
              (Ok (), add_pending (CbInput (case args of [] \<Rightarrow> VUndefined | a # as \<Rightarrow> a))
                        (cons_call Input (suspend s2)))))"

definition SWAP_action :: "host \<Rightarrow> vm \<Rightarrow> unit res \<times> vm" where
  "SWAP_action h s =
     (let (lhs, s1) = pop s;
          (rhs, s2) = pop s1
      in bind (get_prop h (store s2) lhs ''value'', s2)
           (\<lambda>temp s3.
              bind (get_prop h (store s3) rhs ''value'', s3)
                (\<lambda>rv s4.
                   bind (put_prop lhs ''value'' rv s4)
                     (\<lambda>u s5. put_prop rhs ''value'' temp s5))))"

definition WIDTH_action :: "host \<Rightarrow> vm \<Rightarrow> unit res \<times> vm" where
  "WIDTH_action h s = (let (a, s1) = pop s; (b, s2) = pop s1 in (Ok (), s2))"

definition YIELD_action :: "host \<Rightarrow> vm \<Rightarrow> unit res \<times> vm" where
  "YIELD_action h s =
     (let s1 = suspend s
      in case window h of
           WindowUndeclared \<Rightarrow> (Throw ReferenceError, s1)
         | _ \<Rightarrow> (Ok (), add_pending CbResume s1))"

definition SPSET_action :: "host \<Rightarrow> vm \<Rightarrow> unit res \<times> vm" where
  "SPSET_action h s =
     (let s0 = suspend s;
          (argCount, s1) = pop s0
      in bind (if js_greater h (store s1) argCount (VNum (Fin 2)) then pop_value h s1
               else (Ok (VNum (Fin 1)), s1))
           (\<lambda>frames s2.
              bind (pop_value h s2)
                (\<lambda>image s3.
                   bind (pop_value h s3)
                     (\<lambda>spriteNum s4.
                        (Ok (), add_pending CbResume
                           (cons_call (CreateSprite spriteNum image frames) s4))))))"

definition SPOFS_action :: "host \<Rightarrow> vm \<Rightarrow> unit res \<times> vm" where
  "SPOFS_action h s =
     bind (pop_value h s)
       (\<lambda>y s1.
          bind (pop_value h s1)
            (\<lambda>x s2.
               bind (pop_value h s2)
                 (\<lambda>spriteNum s3. (Ok (), cons_call (OffsetSprite spriteNum x y) s3))))"

definition SPSCALE_action :: "host \<Rightarrow> vm \<Rightarrow> unit res \<times> vm" where
  "SPSCALE_action h s =
     bind (pop_value h s)
       (\<lambda>scaleY s1.
          bind (pop_value h s1)
            (\<lambda>scaleX s2.
               bind (pop_value h s2)
                 (\<lambda>spriteNum s3. (Ok (), cons_call (ScaleSprite spriteNum scaleX scaleY) s3))))"

definition SPROT_action :: "host \<Rightarrow> vm \<Rightarrow> unit res \<times> vm" where
  "SPROT_action h s =
     bind (pop_value h s)
       (\<lambda>angle s1.
          bind (pop_value h s1)
            (\<lambda>spriteNum s2. (Ok (), cons_call (RotateSprite spriteNum angle) s2)))"

definition SPHOME_action :: "host \<Rightarrow> vm \<Rightarrow> unit res \<times> vm" where
  "SPHOME_action h s =
     bind (pop_value h s)
       (\<lambda>homeY s1.
          bind (pop_value h s1)
            (\<lambda>homeX s2.
               bind (pop_value h s2)
                 (\<lambda>spriteNum s3. (Ok (), cons_call (HomeSprite spriteNum homeX homeY) s3))))"

definition SPHIDE_action :: "host \<Rightarrow> vm \<Rightarrow> unit res \<times> vm" where
  "SPHIDE_action h s =
     bind (pop_value h s) (\<lambda>spriteNum s1. (Ok (), cons_call (DisplaySprite spriteNum False) s1))"

definition SPSHOW_action :: "host \<Rightarrow> vm \<Rightarrow> unit res \<times> vm" where
  "SPSHOW_action h s =
     bind (pop_value h s) (\<lambda>spriteNum s1. (Ok (), cons_call (DisplaySprite spriteNum True) s1))"

definition SPANIM_action :: "host \<Rightarrow> vm \<Rightarrow> unit res \<times> vm" where
  "SPANIM_action h s =
     (let (argCount, s1) = pop s
      in bind (if js_greater h (store s1) argCount (VNum (Fin 3)) then
                 bind (pop_value h s1) (\<lambda>v s2. (Ok (strict_eq v (VNum (Fin (- 1)))), s2))
               else (Ok True, s1))
           (\<lambda>loop s2.
              bind (pop_value h s2)
                (\<lambda>stopFrame s3.
                   bind (pop_value h s3)
                     (\<lambda>startFrame s4.
                        bind (pop_value h s4)
                          (\<lambda>spriteNum s5.
                             (Ok (), cons_call
                                (AnimateSprite spriteNum startFrame stopFrame loop) s5))))))"

definition SPCLR_action :: "host \<Rightarrow> vm \<Rightarrow> unit res \<times> vm" where
  "SPCLR_action h s =
     bind (pop_value h s) (\<lambda>spriteNum s1. (Ok (), cons_call (ClearSprite spriteNum) s1))"

definition SystemSubroutines :: "string \<Rightarrow> (host \<Rightarrow> vm \<Rightarrow> unit res \<times> vm) option" where
  "SystemSubroutines name =
     (if name = ''BEEP'' then Some BEEP_action
      else if name = ''CLS'' then Some CLS_action
      else if name = ''RANDOMIZE'' then Some RANDOMIZE_action
      else if name = ''PLAY'' then Some PLAY_action
      else if name = ''BGMPLAY'' then Some BGMPLAY_action
      else if name = ''BGMSTOP'' then Some BGMSTOP_action
      else if name = ''SLEEP'' then Some SLEEP_action
      else if name = ''SYSTEM'' then Some SYSTEM_action
      else if name = ''print_using'' then Some print_using_action
      else if name = ''LOCATE'' then Some LOCATE_action
      else if name = ''COLOR'' then Some COLOR_action
      else if name = ''READ'' then Some READ_action
      else if name = ''SCREEN'' then Some SCREEN_action
      else if name = ''INPUT'' then Some INPUT_action
      else if name = ''SWAP'' then Some SWAP_action
      else if name = ''WIDTH'' then Some WIDTH_action
      else if name = ''YIELD'' then Some YIELD_action
      else if name = ''SPSET'' then Some SPSET_action
      else if name = ''SPOFS'' then Some SPOFS_action
      else if name = ''SPSCALE'' then Some SPSCALE_action
      else if name = ''SPROT'' then Some SPROT_action
      else if name = ''SPHOME'' then Some SPHOME_action
      else if name = ''SPHIDE'' then Some SPHIDE_action
      else if name = ''SPSHOW'' then Some SPSHOW_action
      else if name = ''SPANIM'' then Some SPANIM_action
      else if name = ''SPCLR'' then Some SPCLR_action
      else None)"

section \<open>Instructions\<close>

text \<open>The branches of \<^verbatim>\<open>SYSCALL\<close> that are written out in the instruction itself.\<close>

fun pop_dims :: "nat \<Rightarrow> vm \<Rightarrow> (val \<times> val) list \<times> vm" where
  "pop_dims 0 s = ([], s)"
| "pop_dims (Suc n) s =
     (let (upper, s1) = pop s;
          (lower, s2) = pop s1;
          (ds, s3) = pop_dims n s2
      in (ds @ [(lower, upper)], s3))"

text \<open>\<^verbatim>\<open>while (++x < col) spaces += ' '\<close>\<close>

definition tab_count :: "host \<Rightarrow> store \<Rightarrow> val \<Rightarrow> int \<Rightarrow> nat option" where
  "tab_count h st col x =
     (case to_number h st col of
        Fin c \<Rightarrow> Some (nat (\<lceil>c\<rceil> - 1 - x))
      | PosInf \<Rightarrow> None
      | _ \<Rightarrow> Some 0)"

definition syscall :: "host \<Rightarrow> string \<Rightarrow> vm \<Rightarrow> unit res \<times> vm" where
  "syscall h arg s =
     (if arg = ''print'' then
        (let (what, s1) = pop s
         in (Ok (), cons_call (Print (to_string h (store s1) what)) s1))
      else if arg = ''alloc_array'' then
        (let (type, s1) = pop s;
             (numDimensions, s2) = pop s1
         in case loop_count h (store s2) numDimensions of
              None \<Rightarrow> (Throw RangeError, s2\<lparr>stack := []\<rparr>)
            | Some k \<Rightarrow>
                (let (dimensions, s3) = pop_dims k s2;
                     (r, st) = array_new h type dimensions (store s3)
                 in bind (r, s3\<lparr>store := st\<rparr>) (\<lambda>variable s4. (Ok (), push variable s4))))
      else if arg = ''print_comma'' then
        (Ok (), cons_call (Print (comma_spaces (cons_x h (io s)))) s)
      else if arg = ''print_tab'' then
        (let (v, s1) = pop s;
             col = js_sub h (store s1) v (VNum (Fin 1))
         in case tab_count h (store s1) col (cons_x h (io s1)) of
              None \<Rightarrow> (Throw RangeError, s1)
            | Some k \<Rightarrow> (Ok (), cons_call (Print (replicate k (CHR '' ''))) s1))
      else if arg = ''alloc_scalar'' then
        (let (type, s1) = pop s;
             (r, st) = call_createInstance type (store s1)
         in bind (r, s1\<lparr>store := st\<rparr>)
              (\<lambda>inst s2.
                 let (a, st2) = alloc (ScalarVariable type inst) (store s2)
                 in (Ok (), push (VRef a) (s2\<lparr>store := st2\<rparr>))))
      else
        (case SystemFunctions arg of
           Some action \<Rightarrow> action h s
         | None \<Rightarrow>
             (case SystemSubroutines arg of
                Some action \<Rightarrow> action h s
              | None \<Rightarrow>
                  (Throw (RuntimeError UKNOWN_SYSCALL (''Unknown syscall: '' @ arg) None), s))))"

text \<open>The index loop of \<^verbatim>\<open>ARRAY_DEREF\<close>.\<close>

fun pop_indexes :: "nat \<Rightarrow> vm \<Rightarrow> val list res \<times> vm" where
  "pop_indexes 0 s = (Ok [], s)"
| "pop_indexes (Suc n) s =
     (let (index, s1) = pop s
      in if strict_eq index VUndefined then
           (Throw (RuntimeError STACK_UNDERFLOW ''Stack underflow'' None), s1)
         else bind (pop_indexes n s1) (\<lambda>indexes s2. (Ok (indexes @ [index]), s2)))"

definition bool_val :: "bool \<Rightarrow> val" where
  "bool_val b = VNum (Fin (if b then - 1 else 0))"

text \<open>
  \<^verbatim>\<open>Instructions[...].execute(vm, arg)\<close>.  The result is \<open>Ok ()\<close> or the value
  thrown, together with the state reached; what an instruction did before it threw
  stays done.
\<close>

fun execute :: "host \<Rightarrow> instr \<Rightarrow> vm \<Rightarrow> unit res \<times> vm" where
  "execute h (FORLOOP arg) s =
     (let counter = stack_at s (int (length (stack s)) - 1);
          step = stack_at s (int (length (stack s)) - 2);
          end_value = stack_at s (int (length (stack s)) - 3)
      in if (js_less h (store s) step (VNum (Fin 0)) \<and> js_less h (store s) counter end_value)
            \<or> (js_greater h (store s) step (VNum (Fin 0)) \<and> js_greater h (store s) counter end_value)
         then (if length (stack s) < 3 then (Throw RangeError, s)
               else (Ok (), s\<lparr>stack := take (length (stack s) - 3) (stack s), pc := arg\<rparr>))
         else (Ok (), snd (pop s)))"
| "execute h COPYTOP s = (Ok (), push (stack_at s (int (length (stack s)) - 1)) s)"
| "execute h (RESTORE arg) s = (Ok (), s\<lparr>dataPtr := arg\<rparr>)"
| "execute h (POPVAL arg) s =
     bind (getVariable arg s)
       (\<lambda>var s1. let (v, s2) = pop s1 in put_prop var ''value'' v s2)"
| "execute h POP s = (Ok (), snd (pop s))"
| "execute h (PUSHREF arg) s = bind (getVariable arg s) (\<lambda>var s1. (Ok (), push var s1))"
| "execute h (PUSHVALUE arg) s =
     bind (getVariable arg s)
       (\<lambda>var s1. bind (get_prop h (store s1) var ''value'', s1) (\<lambda>v s2. (Ok (), push v s2)))"
| "execute h (PUSHTYPE arg) s =
     (Ok (), push (case types s arg of None \<Rightarrow> VUndefined | Some t \<Rightarrow> VType t) s)"
| "execute h (POPVAR arg) s = (let (v, s1) = pop s in setVariable arg v s1)"
| "execute h (NEW arg) s =
     (case types s arg of
        None \<Rightarrow> (Throw TypeError, s)
      | Some t \<Rightarrow>
          (let (v, s1) = pop s;
               (r, st) = type_copy h t v (store s1)
           in bind (r, s1\<lparr>store := st\<rparr>)
                (\<lambda>c s2.
                   let (a, st2) = alloc (ScalarVariable (VType t) c) (store s2)
                   in (Ok (), push (VRef a) (s2\<lparr>store := st2\<rparr>)))))"
| "execute h END s = (Ok (), s\<lparr>pc := length (instructions s)\<rparr>)"
| "execute h (UNARY_OP arg) s =
     (let (rhs, s1) = pop s
      in (Ok (), push (if arg = ''NOT'' then js_bitnot h (store s1) rhs else VUndefined) s1))"
| "execute h OP_EQ s =
     (let (a, s1) = pop s; (b, s2) = pop s1 in (Ok (), push (bool_val (strict_eq a b)) s2))"
| "execute h OP_LT s =
     (let (rhs, s1) = pop s; (lhs, s2) = pop s1
      in (Ok (), push (bool_val (js_less h (store s2) lhs rhs)) s2))"
| "execute h OP_LE s =
     (let (rhs, s1) = pop s; (lhs, s2) = pop s1
      in (Ok (), push (bool_val (js_less_eq h (store s2) lhs rhs)) s2))"
| "execute h OP_GT s =
     (let (rhs, s1) = pop s; (lhs, s2) = pop s1
      in (Ok (), push (bool_val (js_greater h (store s2) lhs rhs)) s2))"
| "execute h OP_GE s =
     (let (rhs, s1) = pop s; (lhs, s2) = pop s1
      in (Ok (), push (bool_val (js_greater_eq h (store s2) lhs rhs)) s2))"
| "execute h OP_NE s =
     (let (a, s1) = pop s; (b, s2) = pop s1 in (Ok (), push (bool_val (\<not> strict_eq a b)) s2))"
| "execute h AND s =
     (let (a, s1) = pop s; (b, s2) = pop s1 in (Ok (), push (js_bitand h (store s2) a b) s2))"
| "execute h OR s =
     (let (a, s1) = pop s; (b, s2) = pop s1 in (Ok (), push (js_bitor h (store s2) a b) s2))"
| "execute h OP_ADD s =
     (let (rhs, s1) = pop s; (lhs, s2) = pop s1 in (Ok (), push (js_add h (store s2) lhs rhs) s2))"
| "execute h OP_SUB s =
     (let (rhs, s1) = pop s; (lhs, s2) = pop s1 in (Ok (), push (js_sub h (store s2) lhs rhs) s2))"
| "execute h OP_MUL s =
     (let (a, s1) = pop s; (b, s2) = pop s1 in (Ok (), push (js_mul h (store s2) a b) s2))"
| "execute h OP_DIV s =
     (let (rhs, s1) = pop s
      in if strict_eq rhs (VNum (Fin 0)) then
           (Throw (RuntimeError DIVISION_BY_ZERO ''Division by zero'' None), s1)
         else (let (lhs, s2) = pop s1 in (Ok (), push (js_div h (store s2) lhs rhs) s2)))"
| "execute h MOD s =
     (let (rhs, s1) = pop s
      in if strict_eq rhs (VNum (Fin 0)) then
           (Throw (RuntimeError DIVISION_BY_ZERO ''Division by zero'' None), s1)
         else (let (lhs, s2) = pop s1 in (Ok (), push (js_rem h (store s2) lhs rhs) s2)))"
| "execute h (BZ arg) s =
     (let (expr, s1) = pop s in (Ok (), if \<not> truthy expr then s1\<lparr>pc := arg\<rparr> else s1))"
| "execute h (BNZ arg) s =
     (let (expr, s1) = pop s in (Ok (), if truthy expr then s1\<lparr>pc := arg\<rparr> else s1))"
| "execute h (JMP arg) s = (Ok (), s\<lparr>pc := arg\<rparr>)"
| "execute h (CALL arg) s =
     (let (a, st) = alloc Map.empty (store s);
          f = \<lparr>return_pc = pc s, variables = a\<rparr>
      in (Ok (), s\<lparr>store := st, frame := Some f, callstack := callstack s @ [f], pc := arg\<rparr>))"
| "execute h (GOSUB arg) s =
     (case frame s of
        None \<Rightarrow> (Throw TypeError, s)
      | Some old \<Rightarrow>
          (let f = \<lparr>return_pc = pc s, variables = variables old\<rparr>
           in (Ok (), s\<lparr>frame := Some f, callstack := callstack s @ [f], pc := arg\<rparr>)))"
| "execute h RET s =
     (if callstack s = [] then
        (Throw (RuntimeError STACK_UNDERFLOW ''Stack underflow'' None), s)
      else
        (let returnAddr = last (callstack s);
             rest = butlast (callstack s)
         in (Ok (), s\<lparr>callstack := rest, pc := return_pc returnAddr,
                       frame := (if rest = [] then None else Some (last rest))\<rparr>)))"
| "execute h (PUSHCONST arg) s = (Ok (), push arg s)"
| "execute h (ARRAY_DEREF arg) s =
     (let (variable, s1) = pop s
      in bind (array_rank h (store s1) variable, s1)
           (\<lambda>n s2.
              bind (pop_indexes n s2)
                (\<lambda>indexes s3.
                   bind (array_access h (store s3) variable indexes, s3)
                     (\<lambda>cell s4.
                        if truthy arg then (Ok (), push cell s4)
                        else bind (get_prop h (store s4) cell ''value'', s4)
                               (\<lambda>v s5. (Ok (), push v s5))))))"
| "execute h (MEMBER_DEREF arg) s =
     (let (userVariable, s1) = pop s
      in bind (get_prop h (store s1) userVariable arg, s1)
           (\<lambda>deref s2. (Ok (), push deref s2)))"
| "execute h (MEMBER_VALUE arg) s =
     (let (userVariable, s1) = pop s
      in bind (get_prop h (store s1) userVariable arg, s1)
           (\<lambda>deref s2.
              bind (get_prop h (store s2) deref ''value'', s2) (\<lambda>v s3. (Ok (), push v s3))))"
| "execute h ASSIGN s =
     (let (lhs, s1) = pop s;
          (rhs, s2) = pop s1
      in bind (get_prop h (store s2) lhs ''type'', s2)
           (\<lambda>t s3.
              bind (let (r, st) = call_copy h t rhs (store s3) in (r, s3\<lparr>store := st\<rparr>))
                (\<lambda>c s4. put_prop lhs ''value'' c s4)))"
| "execute h (SYSCALL arg) s = syscall h arg s"

section \<open>The dispatch loop\<close>

definition emit :: "exn \<Rightarrow> vm \<Rightarrow> vm" where
  "emit e s = s\<lparr>events := events s @ [e]\<rparr>"

text \<open>
  \<^verbatim>\<open>runOneInstruction\<close>.  Reading \<^verbatim>\<open>instructions[pc++]\<close> beyond the end gives
  \<^verbatim>\<open>undefined\<close>, and the TypeError of \<^verbatim>\<open>instr.instr\<close> is raised inside the
  \<^verbatim>\<open>try\<close> block.
\<close>

definition runOneInstruction :: "host \<Rightarrow> vm \<Rightarrow> unit res \<times> vm" where
  "runOneInstruction h s =
     (let s1 = s\<lparr>pc := Suc (pc s)\<rparr>
      in if pc s < length (instructions s) then
           (case execute h (instr (instructions s ! pc s)) s1 of
              (Ok u, s2) \<Rightarrow> (Ok (), s2)
            | (Throw e, s2) \<Rightarrow>
                (case e of
                   RuntimeError c m l \<Rightarrow>
                     (Throw (RuntimeError c m (Some (locus (instructions s ! pc s)))), s2)
                 | _ \<Rightarrow> (Ok (), s2)))
         else (Ok (), s1))"



text \<open>\<^verbatim>\<open>this.interval = setInterval(() => this.runSome(), this.INTERVAL_MS)\<close>\<close>

definition setInterval :: "vm \<Rightarrow> vm" where
  "setInterval s =
     s\<lparr>interval := Some (Suc (timer_seq s)),
       timers := timers s @ [Suc (timer_seq s)],
       timer_seq := Suc (timer_seq s)\<rparr>"


definition reset :: "host \<Rightarrow> QBasicProgram option \<Rightarrow> vm \<Rightarrow> unit res \<times> vm" where
  "reset h program s =
     (let s1 = (case program of
                  None \<Rightarrow> s
                | Some p \<Rightarrow> s\<lparr>instructions := prog_instructions p, types := prog_types p,
                               defaultType := prog_defaultType p, data := prog_data p,
                               shared := prog_shared p\<rparr>);
          (a, st) = alloc Map.empty (store s1);
          f = \<lparr>return_pc = length (instructions s1), variables = a\<rparr>;
          s2 = s1\<lparr>stack := [], callstack := [f], frame := Some f, dataPtr := 0,
                  suspended := False, store := st\<rparr>
      in bind (case interval s2 of
                 None \<Rightarrow> (Ok (), s2)
               | Some k \<Rightarrow>
                   if k = 0 then (Ok (), s2)
                   else (case window h of
                           WindowObject \<Rightarrow> (Ok (), (clearInterval (Some k) s2)\<lparr>interval := None\<rparr>)
                         | WindowFalsy \<Rightarrow> (Throw TypeError, s2)
                         | WindowUndeclared \<Rightarrow> (Throw ReferenceError, s2)))
           (\<lambda>u s3. (Ok (), cons_call (ConsReset (map_option testMode program)) (s3\<lparr>pc := 0\<rparr>))))"





section \<open>Construction, completions and reachable states\<close>

definition empty_store :: store where
  "empty_store = \<lparr>objs = (\<lambda>a. Map.empty), next_ref = 0, type_props = (\<lambda>t. Map.empty)\<rparr>"

text \<open>The field initialisers and the constructor of \<^verbatim>\<open>VirtualMachine\<close>.\<close>

definition VirtualMachine :: "bool \<Rightarrow> vm" where
  "VirtualMachine has_audio =
     \<lparr>stack = [], pc = 0, callstack = [], instructions = [], types = Map.empty,
      shared = (\<lambda>n. False), dataPtr = 0, data = [], asynchronous = False,
      suspended = False, interval = None, instructionsPerInterval = 2048,
      lastRandomNumber = VNum (Fin 0), defaultType = None, frame = None,
      audio = has_audio, store = empty_store, events = [], io = [], timers = [],
      timer_seq = 0, pending = [], draws = 0\<rparr>"





text \<open>
  \<open>machine_fields\<close> collects the fields that no instruction writes;
  \<open>control_fields\<close> adds the program counter, the call stack and the frame pointer,
  which no syscall writes.
\<close>

definition machine_fields ::
  "vm \<Rightarrow> exn list \<times> val \<times> Instruction list \<times> (string \<rightharpoonup> ty) \<times> (string \<Rightarrow> bool) \<times> val list
        \<times> bool \<times> nat option \<times> nat \<times> ty option \<times> bool \<times> nat" where
  "machine_fields s =
     (events s, lastRandomNumber s, instructions s, types s, shared s, data s,
      asynchronous s, interval s, instructionsPerInterval s, defaultType s, audio s,
      timer_seq s)"

definition control_fields ::
  "vm \<Rightarrow> nat \<times> StackFrame list \<times> StackFrame option
        \<times> exn list \<times> val \<times> Instruction list \<times> (string \<rightharpoonup> ty) \<times> (string \<Rightarrow> bool) \<times> val list
        \<times> bool \<times> nat option \<times> nat \<times> ty option \<times> bool \<times> nat" where
  "control_fields s = (pc s, callstack s, frame s, machine_fields s)"

text \<open>\<open>quiet_fields\<close> adds what only the suspending syscalls write.\<close>

definition quiet_fields ::
  "vm \<Rightarrow> bool \<times> nat list \<times> nat \<times> StackFrame list \<times> StackFrame option
        \<times> exn list \<times> val \<times> Instruction list \<times> (string \<rightharpoonup> ty) \<times> (string \<Rightarrow> bool) \<times> val list
        \<times> bool \<times> nat option \<times> nat \<times> ty option \<times> bool \<times> nat" where
  "quiet_fields s = (suspended s, timers s, control_fields s)"


text \<open>An address is allocated once \<open>alloc\<close> has handed it out.\<close>

definition allocated :: "store \<Rightarrow> nat \<Rightarrow> bool" where
  "allocated st a = (a < next_ref st)"

text \<open>A host for concrete runs: every library function it is asked for returns a constant.\<close>

definition host0 :: host where
  "host0 =
     \<lparr>str_to_number = (\<lambda>s. NaN), number_to_string = (\<lambda>r. ''0''),
      obj_to_string = (\<lambda>st v. ''[object Object]''), proto_prop = (\<lambda>st v p. VUndefined),
      builtin = (\<lambda>f st args. Ok VUndefined), math_random = (\<lambda>n. 1 / 2),
      date_now = (\<lambda>n. (0, 0, 0, 0)), cons_x = (\<lambda>l. 0), cons_key = (\<lambda>l. VNum (Fin (- 1))),
      window = WindowObject, type_copy = (\<lambda>t v st. (Ok v, st)),
      IsNumericType = (\<lambda>t. Ok True), array_new = (\<lambda>t ds st. (Throw TypeError, st)),
      array_rank = (\<lambda>st v. Throw TypeError), array_access = (\<lambda>st v ix. Throw TypeError)\<rparr>"

text \<open>
  A small compiled program for concrete runs: \<^verbatim>\<open>X = 10 / 0\<close>, with the five scalar
  types, SINGLE as the default type, three DATA values of which the second is empty,
  and one shared name.
\<close>

definition example_program :: QBasicProgram where
  "example_program =
     \<lparr>prog_instructions =
        [\<lparr>instr = PUSHCONST (VNum (Fin 10)), locus = (0, 4)\<rparr>,
         \<lparr>instr = PUSHCONST (VNum (Fin 0)), locus = (0, 9)\<rparr>,
         \<lparr>instr = OP_DIV, locus = (0, 7)\<rparr>,
         \<lparr>instr = POPVAL ''X'', locus = (0, 0)\<rparr>],
      prog_types = [''INTEGER'' \<mapsto> ScalarType INTEGER, ''LONG'' \<mapsto> ScalarType LONG,
                    ''SINGLE'' \<mapsto> ScalarType SINGLE, ''DOUBLE'' \<mapsto> ScalarType DOUBLE,
                    ''STRING'' \<mapsto> ScalarType STRING],
      prog_defaultType = Some (ScalarType SINGLE),
      prog_data = [VNum (Fin 1), VNull, VNum (Fin 3)],
      prog_shared = (\<lambda>n. n = ''G''),
      testMode = False\<rparr>"

text \<open>The machine after \<^verbatim>\<open>reset(example_program)\<close>.\<close>

definition example_vm :: vm where
  "example_vm = snd (reset host0 (Some example_program) (VirtualMachine False))"

text \<open>
  The same machine with two SINGLE variables allocated, and on the operand stack what
  \<^verbatim>\<open>READ A, B\<close> is called with: the two references and the argument count.
\<close>

definition read_vm :: vm where
  "read_vm = example_vm\<lparr>stack := [VRef 1, VRef 2, VNum (Fin 2)],
     store := \<lparr>objs = (\<lambda>a. if a = 1 \<or> a = 2
                            then ScalarVariable (VType (ScalarType SINGLE)) (VNum (Fin 7))
                            else Map.empty),
               next_ref = 3, type_props = (\<lambda>t. Map.empty)\<rparr>\<rparr>"




definition rnd_program :: QBasicProgram where
  "rnd_program =
     example_program\<lparr>prog_instructions :=
        [\<lparr>instr = PUSHCONST (VNum (Fin 1)), locus = (0, 0)\<rparr>,
         \<lparr>instr = PUSHCONST (VNum (Fin 1)), locus = (0, 0)\<rparr>,
         \<lparr>instr = SYSCALL ''RND'', locus = (0, 0)\<rparr>,
         \<lparr>instr = POP, locus = (0, 0)\<rparr>,
         \<lparr>instr = PUSHCONST (VNum (Fin 0)), locus = (1, 0)\<rparr>,
         \<lparr>instr = PUSHCONST (VNum (Fin 1)), locus = (1, 0)\<rparr>,
         \<lparr>instr = SYSCALL ''RND'', locus = (1, 0)\<rparr>]\<rparr>"

definition rnd_vm :: vm where
  "rnd_vm =
     snd (runOneInstruction host0
       (snd (runOneInstruction host0
       (snd (runOneInstruction host0
       (snd (runOneInstruction host0
       (snd (runOneInstruction host0
       (snd (runOneInstruction host0
       (snd (reset host0 (Some rnd_program) (VirtualMachine False))))))))))))))"

section \<open>The GLR parser\<close>



text \<open>What evaluating a parse returns: null, the text of a token, or what an action built.\<close>

datatype pvalue = PNull | PText string | PNode string "pvalue list"

text \<open>
  Modelled from the spec: the rules of a rule set (\<^verbatim>\<open>RuleSet.js\<close>): a numeric
  identifier, the name of the nonterminal, the symbols of the right-hand side (a
  terminal starts with a single quote) and an optional action.  \<open>rules\<close> gives the
  rules of a nonterminal and \<open>follow\<close> the identifiers of the tokens that may follow
  it.
\<close>

record Rule =
  rule_id :: nat
  rule_name :: string
  rule_symbols :: "string list"
  rule_action :: "(pvalue list \<Rightarrow> locus option \<Rightarrow> pvalue res) option"

record RuleSet =
  all_rules :: "Rule list"
  rules :: "string \<Rightarrow> nat list option"
  follow :: "string \<Rightarrow> string list option"

record GlrItem =
  item_rule :: nat
  item_position :: nat

record GlrState =
  state_id :: nat
  items :: "(string \<times> GlrItem) list"
  itemCount :: nat
  state_next :: "string \<Rightarrow> nat option option"
  reductions :: "nat list"
  accept :: bool




text \<open>How \<^verbatim>\<open>sprintf\<close> and string concatenation print a natural number.\<close>

definition digit_char :: "nat \<Rightarrow> char" where
  "digit_char d = ''0123456789'' ! d"

fun show_nat :: "nat \<Rightarrow> string" where
  "show_nat n = (if n < 10 then [digit_char n] else show_nat (n div 10) @ [digit_char (n mod 10)])"

declare show_nat.simps [simp del]

definition is_terminal :: "string \<Rightarrow> bool" where
  "is_terminal symbol = (case symbol of [] \<Rightarrow> False | c # cs \<Rightarrow> c = CHR 0x27)"


subsection \<open>States\<close>

definition item_key :: "RuleSet \<Rightarrow> GlrItem \<Rightarrow> string" where
  "item_key g it =
     ''r'' @ show_nat (rule_id (all_rules g ! item_rule it)) @ ''_'' @ show_nat (item_position it)"






fun addNonTerminalToState :: "nat \<Rightarrow> RuleSet \<Rightarrow> GlrState \<Rightarrow> string \<Rightarrow> GlrState res option"
  and addRules :: "nat \<Rightarrow> RuleSet \<Rightarrow> GlrState \<Rightarrow> nat list \<Rightarrow> GlrState res option"
  and addRuleToState :: "nat \<Rightarrow> RuleSet \<Rightarrow> GlrState \<Rightarrow> nat \<Rightarrow> nat \<Rightarrow> GlrState res option"
where
  "addNonTerminalToState 0 g st ruleName = None"
| "addNonTerminalToState (Suc n) g st ruleName =
     (case rules g ruleName of
        None \<Rightarrow> Some (Throw TypeError)
      | Some rs \<Rightarrow> addRules n g st rs)"
| "addRules 0 g st rs = None"
| "addRules (Suc n) g st [] = Some (Ok st)"
| "addRules (Suc n) g st (r # rs) =
     (case addRuleToState n g st r 0 of
        Some (Ok st1) \<Rightarrow> addRules n g st1 rs
      | other \<Rightarrow> other)"
| "addRuleToState 0 g st r position = None"
| "addRuleToState (Suc n) g st r position =
     (let item = \<lparr>item_rule = r, item_position = position\<rparr>;
          key = item_key g item;
          rule = all_rules g ! r
      in if map_of (items st) key \<noteq> None then Some (Ok st)
         else
           (let st1 = st\<lparr>items := items st @ [(key, item)], itemCount := Suc (itemCount st)\<rparr>
            in if position = length (rule_symbols rule)
               then Some (Ok (st1\<lparr>reductions := reductions st1 @ [r],
                                  accept := (accept st1 \<or> rule_name rule = ''_start'')\<rparr>))
               else if length (rule_symbols rule) < position then Some (Throw TypeError)
               else if \<not> is_terminal (rule_symbols rule ! position)
               then addNonTerminalToState n g st1 (rule_symbols rule ! position)
               else Some (Ok st1)))"




subsection \<open>Nodes\<close>









subsection \<open>Reducing and shifting\<close>







subsection \<open>Reporting what was expected\<close>



subsection \<open>Evaluating the parse\<close>



subsection \<open>The parse\<close>








subsection \<open>A grammar with one rule\<close>









section \<open>Basic facts about the operand stack and the operators\<close>

lemma pop_snoc: "stack s = xs @ [x] \<Longrightarrow> pop s = (x, s\<lparr>stack := xs\<rparr>)"
  by (simp add: pop_def)

lemma pop_empty: "stack s = [] \<Longrightarrow> pop s = (VUndefined, s)"
  by (simp add: pop_def)

lemma js_less_Fin: "js_less h st (VNum (Fin a)) (VNum (Fin b)) = (a < b)"
  by (simp add: js_less_def js_lt_def)

lemma js_greater_Fin: "js_greater h st (VNum (Fin a)) (VNum (Fin b)) = (b < a)"
  by (simp add: js_greater_def js_lt_def)




section \<open>The \<^verbatim>\<open>forloop\<close> instruction\<close>

text \<open>
  Claim C2.  When \<^verbatim>\<open>forloop\<close> is executed with the counter on top of the operand
  stack, the step below it and the end value below that: if
  (step \<open>>\<close> 0 and counter \<open>>\<close> end) or (step \<open><\<close> 0 and counter \<open><\<close> end), all
  three operands are popped and \<open>pc\<close> becomes the address argument; otherwise only the
  counter is popped, step and end stay where they are, and \<open>pc\<close> is not touched.  The
  comparisons are those of the host language; on numbers they are the usual order
  (\<open>js_less_Fin\<close>, \<open>js_greater_Fin\<close>).
\<close>

theorem C2_forloop:
  assumes "stack s = rest @ [end_value, step, counter]"
  shows "execute h (FORLOOP arg) s =
     (if (js_greater h (store s) step (VNum (Fin 0)) \<and> js_greater h (store s) counter end_value) \<or>
         (js_less h (store s) step (VNum (Fin 0)) \<and> js_less h (store s) counter end_value)
      then (Ok (), s\<lparr>stack := rest, pc := arg\<rparr>)
      else (Ok (), s\<lparr>stack := rest @ [end_value, step]\<rparr>))"
proof -
  have len: "length (stack s) = length rest + 3"
    using assms by simp
  have i1: "nat (int (length rest + 3) - 1) = length rest + 2"
    and i2: "nat (int (length rest + 3) - 2) = length rest + 1"
    and i3: "nat (int (length rest + 3) - 3) = length rest"
    by simp_all
  have c: "stack_at s (int (length (stack s)) - 1) = counter"
    unfolding stack_at_def len i1 using assms by (simp add: nth_append)
  have st: "stack_at s (int (length (stack s)) - 2) = step"
    unfolding stack_at_def len i2 using assms by (simp add: nth_append)
  have e: "stack_at s (int (length (stack s)) - 3) = end_value"
    unfolding stack_at_def len i3 using assms by (simp add: nth_append)
  have p: "pop s = (counter, s\<lparr>stack := rest @ [end_value, step]\<rparr>)"
    using assms pop_snoc [of s "rest @ [end_value, step]" counter] by simp
  show ?thesis
    unfolding execute.simps Let_def c st e p using assms by simp
qed

text \<open>
  A loop to 3 in steps of 1: with the counter at 4 the loop is left, with the counter at
  2 the body runs once more.
\<close>

theorem C2_forloop_witness:
  "stack ((VirtualMachine False)\<lparr>stack := [VNum (Fin 3), VNum (Fin 1), VNum (Fin 4)]\<rparr>)
     = [] @ [VNum (Fin 3), VNum (Fin 1), VNum (Fin 4)]
   \<and> execute host0 (FORLOOP 7)
        ((VirtualMachine False)\<lparr>stack := [VNum (Fin 3), VNum (Fin 1), VNum (Fin 4)]\<rparr>)
     = (Ok (), (VirtualMachine False)\<lparr>stack := [], pc := 7\<rparr>)"
  using C2_forloop [of "(VirtualMachine False)\<lparr>stack := [VNum (Fin 3), VNum (Fin 1), VNum (Fin 4)]\<rparr>"
      "[]" "VNum (Fin 3)" "VNum (Fin 1)" "VNum (Fin 4)" host0 7]
  by (simp add: js_greater_Fin js_less_Fin)

section \<open>Division and remainder\<close>



section \<open>Return\<close>

text \<open>
  Claim C6.  \<^verbatim>\<open>RET\<close> on a non-empty call stack pops the top frame, sets \<open>pc\<close> to
  the return address of that frame and makes the new top of the call stack the current
  frame (none, when the call stack has become empty).  On an empty call stack it raises
  a RuntimeError with the code \<open>STACK_UNDERFLOW\<close> (202) and leaves the state as it
  was.
\<close>

theorem C6_ret:
  "(callstack s = cs @ [f] \<longrightarrow>
      execute h RET s =
        (Ok (), s\<lparr>callstack := cs, pc := return_pc f,
                   frame := (if cs = [] then None else Some (last cs))\<rparr>))
   \<and> (callstack s = [] \<longrightarrow>
      execute h RET s = (Throw (RuntimeError STACK_UNDERFLOW ''Stack underflow'' None), s))
   \<and> code_number STACK_UNDERFLOW = 202"
  by (simp add: Let_def)

theorem C6_ret_witness:
  "callstack ((VirtualMachine False)\<lparr>callstack :=
       [\<lparr>return_pc = 9, variables = 0\<rparr>, \<lparr>return_pc = 4, variables = 1\<rparr>]\<rparr>)
     = [\<lparr>return_pc = 9, variables = 0\<rparr>] @ [\<lparr>return_pc = 4, variables = 1\<rparr>]
   \<and> execute host0 RET ((VirtualMachine False)\<lparr>callstack :=
       [\<lparr>return_pc = 9, variables = 0\<rparr>, \<lparr>return_pc = 4, variables = 1\<rparr>]\<rparr>)
     = (Ok (), (VirtualMachine False)\<lparr>callstack := [\<lparr>return_pc = 9, variables = 0\<rparr>], pc := 4,
                  frame := Some \<lparr>return_pc = 9, variables = 0\<rparr>\<rparr>)
   \<and> callstack (VirtualMachine False) = []
   \<and> execute host0 RET (VirtualMachine False)
     = (Throw (RuntimeError STACK_UNDERFLOW ''Stack underflow'' None), VirtualMachine False)"
  using C6_ret [of "(VirtualMachine False)\<lparr>callstack :=
       [\<lparr>return_pc = 9, variables = 0\<rparr>, \<lparr>return_pc = 4, variables = 1\<rparr>]\<rparr>"
      "[\<lparr>return_pc = 9, variables = 0\<rparr>]" "\<lparr>return_pc = 4, variables = 1\<rparr>" host0]
    C6_ret [of "VirtualMachine False" "[]" "\<lparr>return_pc = 4, variables = 1\<rparr>" host0]
  by (simp add: VirtualMachine_def)

section \<open>Variables\<close>

lemma example_vm_eq:
  "example_vm =
     \<lparr>stack = [], pc = 0, callstack = [\<lparr>return_pc = 4, variables = 0\<rparr>],
      instructions = prog_instructions example_program, types = prog_types example_program,
      shared = (\<lambda>n. n = ''G''), dataPtr = 0, data = [VNum (Fin 1), VNull, VNum (Fin 3)],
      asynchronous = False, suspended = False, interval = None,
      instructionsPerInterval = 2048, lastRandomNumber = VNum (Fin 0),
      defaultType = Some (ScalarType SINGLE), frame = Some \<lparr>return_pc = 4, variables = 0\<rparr>,
      audio = False,
      store = \<lparr>objs = (\<lambda>a. Map.empty), next_ref = 1, type_props = (\<lambda>t. Map.empty)\<rparr>,
      events = [], io = [ConsReset (Some False)], timers = [], timer_seq = 0, pending = [],
      draws = 0\<rparr>"
  by (auto simp add: example_vm_def reset_def VirtualMachine_def empty_store_def alloc_def
      example_program_def cons_call_def Let_def)



text \<open>
  When \<^verbatim>\<open>getVariable\<close> returns, the name is bound to the result in the frame it
  resolved to, and neither the call stack nor the frame pointer has changed.
\<close>

lemma getVariable_result:
  assumes "getVariable n s = (Ok x, s')"
  shows "\<exists>f. (if shared s n then (if callstack s = [] then None else Some (callstack s ! 0))
              else frame s) = Some f
             \<and> objs (store s') (variables f) n = Some x \<and> truthy x"
    and "callstack s' = callstack s" and "frame s' = frame s" and "shared s' = shared s"
    and "pc s' = pc s"
proof -
  let ?r = "if shared s n then (if callstack s = [] then None else Some (callstack s ! 0))
            else frame s"
  obtain f where fr: "?r = Some f"
    using assms unfolding getVariable_def by (cases ?r) simp_all
  have cv: "create_variable f n s = (Ok x, s') \<Longrightarrow>
      objs (store s') (variables f) n = Some x \<and> truthy x \<and> callstack s' = callstack s
      \<and> frame s' = frame s \<and> shared s' = shared s \<and> pc s' = pc s"
    unfolding create_variable_def
    by (auto simp add: alloc_def Let_def split: option.splits prod.splits)
  have all: "objs (store s') (variables f) n = Some x \<and> truthy x \<and> callstack s' = callstack s
      \<and> frame s' = frame s \<and> shared s' = shared s \<and> pc s' = pc s"
  proof (cases "objs (store s) (variables f) n")
    case None
    then show ?thesis using assms cv unfolding getVariable_def fr by simp
  next
    case (Some v)
    show ?thesis
    proof (cases "truthy v")
      case True
      then show ?thesis using assms Some unfolding getVariable_def fr by auto
    next
      case False
      then show ?thesis using assms Some cv unfolding getVariable_def fr by simp
    qed
  qed
  show "\<exists>f. ?r = Some f \<and> objs (store s') (variables f) n = Some x \<and> truthy x"
    using fr all by blast
  show "callstack s' = callstack s" "frame s' = frame s" "shared s' = shared s" "pc s' = pc s"
    using all by simp_all
qed

lemma getVariable_bound:
  assumes "(if shared s n then (if callstack s = [] then None else Some (callstack s ! 0))
            else frame s) = Some f"
    and "objs (store s) (variables f) n = Some x" and "truthy x"
  shows "getVariable n s = (Ok x, s)"
  unfolding getVariable_def assms(1) using assms(2,3) by simp




section \<open>Calls and subroutine jumps\<close>

lemma gosub_get_ret:
  assumes fr: "frame s = Some old" and cs: "callstack s = cs @ [old]"
    and gv: "getVariable n (snd (execute h (GOSUB a) s)) = (Ok x, s2)"
  shows "let (r3, s3) = execute h RET s2
         in r3 = Ok () \<and> frame s3 = Some old \<and> callstack s3 = cs @ [old] \<and> pc s3 = pc s
            \<and> getVariable n s3 = (Ok x, s3)"
proof -
  let ?f = "\<lparr>return_pc = pc s, variables = variables old\<rparr>"
  define s1 where "s1 = s\<lparr>frame := Some ?f, callstack := cs @ [old, ?f], pc := a\<rparr>"
  have g: "snd (execute h (GOSUB a) s) = s1"
    using fr cs by (simp add: Let_def s1_def)
  have bl: "butlast (cs @ [old, ?f]) = cs @ [old]"
    by (simp add: butlast_append)
  have hd: "(cs @ [old, ?f]) ! 0 = (cs @ [old]) ! 0"
    by (cases cs) simp_all
  note r = getVariable_result [OF gv [unfolded g]]
  have c2: "callstack s2 = cs @ [old, ?f]" and f2: "frame s2 = Some ?f" and sh: "shared s2 = shared s"
    using r(2,3,4) by (simp_all add: s1_def)
  have res1: "(if shared s1 n then (if callstack s1 = [] then None else Some (callstack s1 ! 0))
            else frame s1) = (if shared s n then Some ((cs @ [old]) ! 0) else Some ?f)"
    by (simp add: s1_def hd)
  obtain f where f: "(if shared s n then Some ((cs @ [old]) ! 0) else Some ?f) = Some f"
    and b: "objs (store s2) (variables f) n = Some x" and t: "truthy x"
    using r(1) unfolding res1 by blast
  define s3 where "s3 = s2\<lparr>callstack := cs @ [old], pc := pc s, frame := Some old\<rparr>"
  have rt: "execute h RET s2 = (Ok (), s3)"
    by (simp add: c2 s3_def Let_def bl)
  define f' where "f' = (if shared s n then (cs @ [old]) ! 0 else old)"
  have vf: "variables f' = variables f"
    using f by (auto simp add: f'_def split: if_splits)
  have res3: "(if shared s3 n then (if callstack s3 = [] then None else Some (callstack s3 ! 0))
            else frame s3) = Some f'"
    by (simp add: s3_def sh f'_def)
  have b3: "objs (store s3) (variables f') n = Some x"
    using b by (simp add: s3_def vf)
  have g3: "getVariable n s3 = (Ok x, s3)"
    by (rule getVariable_bound [OF res3 b3 t])
  have "frame s3 = Some old" "callstack s3 = cs @ [old]" "pc s3 = pc s"
    by (simp_all add: s3_def)
  then show ?thesis
    using g3 by (simp only: rt prod.case) simp
qed

text \<open>
  Claim C3.  \<^verbatim>\<open>CALL\<close> pushes a new frame whose return address is the current
  \<open>pc\<close> and whose \<^verbatim>\<open>variables\<close> object is newly allocated, empty and different
  from that of every frame on the call stack.  \<^verbatim>\<open>GOSUB\<close> pushes a frame whose
  \<^verbatim>\<open>variables\<close> is the very object of the calling frame.  Hence a name bound after
  the \<^verbatim>\<open>GOSUB\<close>, by \<^verbatim>\<open>setVariable\<close> or by the \<^verbatim>\<open>getVariable\<close> that creates
  it, is bound to the same value in the caller once \<^verbatim>\<open>RET\<close> has restored the
  caller's frame, call stack and \<open>pc\<close>.
\<close>

theorem C3_call_gosub:
  "execute h (CALL a) s =
     (Ok (), s\<lparr>store := snd (alloc Map.empty (store s)),
               frame := Some \<lparr>return_pc = pc s, variables = next_ref (store s)\<rparr>,
               callstack := callstack s @ [\<lparr>return_pc = pc s, variables = next_ref (store s)\<rparr>],
               pc := a\<rparr>)
   \<and> \<not> allocated (store s) (next_ref (store s))
   \<and> allocated (snd (alloc Map.empty (store s))) (next_ref (store s))
   \<and> objs (snd (alloc Map.empty (store s))) (next_ref (store s)) = Map.empty
   \<and> ((\<forall>g \<in> set (callstack s). allocated (store s) (variables g)) \<longrightarrow>
        (\<forall>g \<in> set (callstack s). variables g \<noteq> next_ref (store s)))
   \<and> (frame s = Some old \<longrightarrow>
        execute h (GOSUB a) s =
          (Ok (), s\<lparr>frame := Some \<lparr>return_pc = pc s, variables = variables old\<rparr>,
                    callstack := callstack s @ [\<lparr>return_pc = pc s, variables = variables old\<rparr>],
                    pc := a\<rparr>))
   \<and> (frame s = Some old \<and> callstack s = cs @ [old] \<longrightarrow>
        (let s1 = snd (execute h (GOSUB a) s);
             (r2, s2) = setVariable n v s1;
             (r3, s3) = execute h RET s2
         in r2 = Ok () \<and> r3 = Ok () \<and> frame s3 = Some old \<and> callstack s3 = cs @ [old]
            \<and> pc s3 = pc s \<and> (truthy v \<longrightarrow> getVariable n s3 = (Ok v, s3))))
   \<and> (frame s = Some old \<and> callstack s = cs @ [old]
        \<and> getVariable n (snd (execute h (GOSUB a) s)) = (Ok x, t2) \<longrightarrow>
        (let (r3, t3) = execute h RET t2
         in r3 = Ok () \<and> frame t3 = Some old \<and> callstack t3 = cs @ [old] \<and> pc t3 = pc s
            \<and> getVariable n t3 = (Ok x, t3)))"
proof -
  have call: "execute h (CALL a) s =
     (Ok (), s\<lparr>store := snd (alloc Map.empty (store s)),
               frame := Some \<lparr>return_pc = pc s, variables = next_ref (store s)\<rparr>,
               callstack := callstack s @ [\<lparr>return_pc = pc s, variables = next_ref (store s)\<rparr>],
               pc := a\<rparr>)"
    by (simp add: alloc_def Let_def)
  have fresh: "\<not> allocated (store s) (next_ref (store s))
     \<and> allocated (snd (alloc Map.empty (store s))) (next_ref (store s))
     \<and> objs (snd (alloc Map.empty (store s))) (next_ref (store s)) = Map.empty"
    by (simp add: allocated_def alloc_def)
  have distinct: "(\<forall>g \<in> set (callstack s). allocated (store s) (variables g)) \<longrightarrow>
        (\<forall>g \<in> set (callstack s). variables g \<noteq> next_ref (store s))"
    by (auto simp add: allocated_def)
  have gosub: "frame s = Some old \<longrightarrow>
        execute h (GOSUB a) s =
          (Ok (), s\<lparr>frame := Some \<lparr>return_pc = pc s, variables = variables old\<rparr>,
                    callstack := callstack s @ [\<lparr>return_pc = pc s, variables = variables old\<rparr>],
                    pc := a\<rparr>)"
    by (simp add: Let_def)
  have pair: "frame s = Some old \<and> callstack s = cs @ [old] \<longrightarrow>
        (let s1 = snd (execute h (GOSUB a) s);
             (r2, s2) = setVariable n v s1;
             (r3, s3) = execute h RET s2
         in r2 = Ok () \<and> r3 = Ok () \<and> frame s3 = Some old \<and> callstack s3 = cs @ [old]
            \<and> pc s3 = pc s \<and> (truthy v \<longrightarrow> getVariable n s3 = (Ok v, s3)))"
  proof (intro impI, elim conjE)
    assume fr: "frame s = Some old" and cs: "callstack s = cs @ [old]"
    let ?f = "\<lparr>return_pc = pc s, variables = variables old\<rparr>"
    define s1 where "s1 = s\<lparr>frame := Some ?f, callstack := cs @ [old, ?f], pc := a\<rparr>"
    have g: "snd (execute h (GOSUB a) s) = s1"
      using fr cs by (simp add: Let_def s1_def)
    have bl: "butlast (cs @ [old, ?f]) = cs @ [old]"
      by (simp add: butlast_append)
    have la: "last (cs @ [old, ?f]) = ?f"
      by simp
    have hd: "(cs @ [old, ?f]) ! 0 = (cs @ [old]) ! 0"
      by (cases cs) simp_all
    define target where "target = (if shared s n then variables ((cs @ [old]) ! 0) else variables old)"
    define s2 where "s2 = s1\<lparr>store := (store s)\<lparr>objs := (objs (store s))(target := (objs (store s) target)(n \<mapsto> v))\<rparr>\<rparr>"
    have sv: "setVariable n v s1 = (Ok (), s2)"
      by (simp add: setVariable_def put_prop_def s1_def s2_def target_def hd)
    define s3 where "s3 = s2\<lparr>callstack := cs @ [old], pc := pc s, frame := Some old\<rparr>"
    have rt: "execute h RET s2 = (Ok (), s3)"
      by (simp add: s2_def s1_def s3_def Let_def bl la)
    have gv: "truthy v \<Longrightarrow> getVariable n s3 = (Ok v, s3)"
      by (simp add: getVariable_def s3_def s2_def s1_def target_def)
    have "frame s3 = Some old" "callstack s3 = cs @ [old]" "pc s3 = pc s"
      by (simp_all add: s3_def)
    then show "let s1 = snd (execute h (GOSUB a) s);
             (r2, s2) = setVariable n v s1;
             (r3, s3) = execute h RET s2
         in r2 = Ok () \<and> r3 = Ok () \<and> frame s3 = Some old \<and> callstack s3 = cs @ [old]
            \<and> pc s3 = pc s \<and> (truthy v \<longrightarrow> getVariable n s3 = (Ok v, s3))"
      using gv by (simp only: Let_def g sv rt prod.case) simp
  qed
  have created: "frame s = Some old \<and> callstack s = cs @ [old]
        \<and> getVariable n (snd (execute h (GOSUB a) s)) = (Ok x, t2) \<longrightarrow>
        (let (r3, t3) = execute h RET t2
         in r3 = Ok () \<and> frame t3 = Some old \<and> callstack t3 = cs @ [old] \<and> pc t3 = pc s
            \<and> getVariable n t3 = (Ok x, t3))"
    using gosub_get_ret [of s old cs n h a x t2] by blast
  show ?thesis using call fresh distinct gosub pair created by blast
qed


theorem C3_call_gosub_witness:
  "allocated (store example_vm) (variables \<lparr>return_pc = 4, variables = 0\<rparr>)
   \<and> frame example_vm = Some \<lparr>return_pc = 4, variables = 0\<rparr>
   \<and> callstack example_vm = [] @ [\<lparr>return_pc = 4, variables = 0\<rparr>]
   \<and> variables \<lparr>return_pc = 4, variables = 0\<rparr> \<noteq> next_ref (store example_vm)
   \<and> (let s1 = snd (execute host0 (GOSUB 3) example_vm);
           (r2, s2) = setVariable ''A'' (VStr ''v'') s1;
           (r3, s3) = execute host0 RET s2
       in r2 = Ok () \<and> r3 = Ok () \<and> frame s3 = Some \<lparr>return_pc = 4, variables = 0\<rparr>
          \<and> callstack s3 = [] @ [\<lparr>return_pc = 4, variables = 0\<rparr>]
          \<and> pc s3 = pc example_vm
          \<and> (truthy (VStr ''v'') \<longrightarrow> getVariable ''A'' s3 = (Ok (VStr ''v''), s3)))
   \<and> getVariable ''X%'' (snd (execute host0 (GOSUB 3) example_vm))
        = (Ok (VRef 1), snd (getVariable ''X%'' (snd (execute host0 (GOSUB 3) example_vm))))
   \<and> (let (r3, t3) = execute host0 RET
                        (snd (getVariable ''X%'' (snd (execute host0 (GOSUB 3) example_vm))))
       in r3 = Ok () \<and> frame t3 = Some \<lparr>return_pc = 4, variables = 0\<rparr>
          \<and> callstack t3 = [] @ [\<lparr>return_pc = 4, variables = 0\<rparr>]
          \<and> pc t3 = pc example_vm
          \<and> getVariable ''X%'' t3 = (Ok (VRef 1), t3))"
proof -
  have g: "getVariable ''X%'' (snd (execute host0 (GOSUB 3) example_vm))
        = (Ok (VRef 1), snd (getVariable ''X%'' (snd (execute host0 (GOSUB 3) example_vm))))"
    by (simp add: example_vm_eq example_program_def getVariable_def create_variable_def
        DeriveTypeNameFromVariable_def alloc_def Let_def)
  have a: "\<forall>g \<in> set (callstack example_vm). allocated (store example_vm) (variables g)"
    by (simp add: example_vm_eq allocated_def)
  have f: "frame example_vm = Some \<lparr>return_pc = 4, variables = 0\<rparr>"
    and c: "callstack example_vm = [] @ [\<lparr>return_pc = 4, variables = 0\<rparr>]"
    by (simp_all add: example_vm_eq)
  note first = C3_call_gosub [where h = host0 and a = 3 and s = example_vm
        and old = "\<lparr>return_pc = 4, variables = 0\<rparr>" and cs = "[]" and n = "''A''"
        and v = "VStr ''v''"]
  note second = C3_call_gosub [where h = host0 and a = 3 and s = example_vm
        and old = "\<lparr>return_pc = 4, variables = 0\<rparr>" and cs = "[]" and n = "''X%''"
        and x = "VRef 1"
        and ?t2.0 = "snd (getVariable ''X%'' (snd (execute host0 (GOSUB 3) example_vm)))"]
  have d: "\<forall>g \<in> set (callstack example_vm). variables g \<noteq> next_ref (store example_vm)"
    using first a by blast
  have a': "allocated (store example_vm) (variables \<lparr>return_pc = 4, variables = 0\<rparr>)"
    using a by (simp add: c)
  have d': "variables \<lparr>return_pc = 4, variables = 0\<rparr> \<noteq> next_ref (store example_vm)"
    using d by (simp add: c)
  show ?thesis
    using first second g a' d' f c by blast
qed

section \<open>DATA, READ and RESTORE\<close>

lemma strict_eq_null: "strict_eq v VNull = (v = VNull)"
  by (cases v) simp_all

lemma pop_args_append:
  "stack s = rest @ xs \<Longrightarrow> pop_args (length xs) s = (xs, s\<lparr>stack := rest\<rparr>)"
proof (induction xs arbitrary: s rule: rev_induct)
  case Nil
  then show ?case by simp
next
  case (snoc x xs)
  have p: "pop s = (x, s\<lparr>stack := rest @ xs\<rparr>)"
    using snoc.prems pop_snoc [of s "rest @ xs" x] by simp
  have "pop_args (length xs) (s\<lparr>stack := rest @ xs\<rparr>) = (xs, s\<lparr>stack := rest @ xs\<rparr>\<lparr>stack := rest\<rparr>)"
    by (rule snoc.IH) simp
  then show ?case by (simp add: p)
qed

lemma loop_count_nat: "loop_count h st (VNum (Fin (real n))) = Some n"
  by (simp add: loop_count_def to_number_def)

lemma read_args_step:
  assumes "objs (store s) a ''type'' = Some (VType (ScalarType k))"
  shows "read_args h (VRef a # args) s =
     read_args h args
       (s\<lparr>dataPtr := Suc (dataPtr s),
          store := (store s)\<lparr>objs := (objs (store s))
            (a := (objs (store s) a)(''value'' \<mapsto>
               (let d = (if dataPtr s < length (data s) then data s ! dataPtr s else VUndefined)
                in if d = VNull then zero_value k else d)))\<rparr>\<rparr>)"
  using assms by (simp add: put_prop_def strict_eq_null Let_def)

lemma read_args_refs:
  assumes "\<forall>a \<in> set as. objs (store s) a ''type'' = Some (VType (ScalarType (kind a)))"
  shows "\<exists>s'. read_args h (map VRef as) s = (Ok (), s')
           \<and> dataPtr s' = dataPtr s + length as \<and> stack s' = stack s
           \<and> (\<forall>a. a \<notin> set as \<longrightarrow> objs (store s') a = objs (store s) a)
           \<and> (\<forall>i < length as. (\<forall>j. i < j \<and> j < length as \<longrightarrow> as ! j \<noteq> as ! i) \<longrightarrow>
                 (let d = (if dataPtr s + i < length (data s) then data s ! (dataPtr s + i)
                           else VUndefined)
                  in objs (store s') (as ! i) ''value''
                       = Some (if d = VNull then zero_value (kind (as ! i)) else d)))"
  using assms
proof (induction as arbitrary: s)
  case Nil
  then show ?case by simp
next
  case (Cons a as)
  define v0 where "v0 = (let d = (if dataPtr s < length (data s) then data s ! dataPtr s else VUndefined)
                in if d = VNull then zero_value (kind a) else d)"
  define s1 where "s1 = s\<lparr>dataPtr := Suc (dataPtr s),
          store := (store s)\<lparr>objs := (objs (store s))(a := (objs (store s) a)(''value'' \<mapsto> v0))\<rparr>\<rparr>"
  have ta: "objs (store s) a ''type'' = Some (VType (ScalarType (kind a)))"
    using Cons.prems by simp
  have step: "read_args h (map VRef (a # as)) s = read_args h (map VRef as) s1"
    using read_args_step [OF ta, of h "map VRef as"] by (simp add: s1_def v0_def)
  have types1: "\<forall>b \<in> set as. objs (store s1) b ''type'' = Some (VType (ScalarType (kind b)))"
    using Cons.prems by (simp add: s1_def)
  from Cons.IH [OF types1] obtain s' where
    r: "read_args h (map VRef as) s1 = (Ok (), s')"
    and dp: "dataPtr s' = dataPtr s1 + length as"
    and stk: "stack s' = stack s1"
    and other: "\<forall>b. b \<notin> set as \<longrightarrow> objs (store s') b = objs (store s1) b"
    and vals: "\<forall>i < length as. (\<forall>j. i < j \<and> j < length as \<longrightarrow> as ! j \<noteq> as ! i) \<longrightarrow>
                 (let d = (if dataPtr s1 + i < length (data s1) then data s1 ! (dataPtr s1 + i)
                           else VUndefined)
                  in objs (store s') (as ! i) ''value''
                       = Some (if d = VNull then zero_value (kind (as ! i)) else d))"
    by blast
  have d1: "dataPtr s1 = Suc (dataPtr s)" "data s1 = data s" "stack s1 = stack s"
    by (simp_all add: s1_def)
  have c1: "dataPtr s' = dataPtr s + length (a # as)"
    using dp d1 by simp
  have c2: "stack s' = stack s"
    using stk d1 by simp
  have c3: "\<forall>b. b \<notin> set (a # as) \<longrightarrow> objs (store s') b = objs (store s) b"
    using other by (simp add: s1_def)
  have c4: "\<forall>i < length (a # as). (\<forall>j. i < j \<and> j < length (a # as) \<longrightarrow> (a # as) ! j \<noteq> (a # as) ! i) \<longrightarrow>
                 (let d = (if dataPtr s + i < length (data s) then data s ! (dataPtr s + i)
                           else VUndefined)
                  in objs (store s') ((a # as) ! i) ''value''
                       = Some (if d = VNull then zero_value (kind ((a # as) ! i)) else d))"
  proof (intro allI impI)
    fix i
    assume i: "i < length (a # as)"
      and last: "\<forall>j. i < j \<and> j < length (a # as) \<longrightarrow> (a # as) ! j \<noteq> (a # as) ! i"
    show "let d = (if dataPtr s + i < length (data s) then data s ! (dataPtr s + i)
                           else VUndefined)
          in objs (store s') ((a # as) ! i) ''value''
               = Some (if d = VNull then zero_value (kind ((a # as) ! i)) else d)"
    proof (cases i)
      case 0
      have "a \<notin> set as"
      proof
        assume "a \<in> set as"
        then obtain j where "j < length as" "as ! j = a"
          by (auto simp add: in_set_conv_nth)
        then show False using last 0 by (auto dest: spec [of _ "Suc j"])
      qed
      then have "objs (store s') a = objs (store s1) a"
        using other by simp
      then show ?thesis
        using 0 by (simp add: s1_def v0_def Let_def)
    next
      case (Suc k)
      have k: "k < length as" using i Suc by simp
      have "\<forall>j. k < j \<and> j < length as \<longrightarrow> as ! j \<noteq> as ! k"
      proof (intro allI impI)
        fix j assume "k < j \<and> j < length as"
        then show "as ! j \<noteq> as ! k"
          using last Suc by (auto dest: spec [of _ "Suc j"])
      qed
      with vals k show ?thesis
        using Suc d1 by (simp add: Let_def)
    qed
  qed
  show ?case
    using step r c1 c2 c3 c4 by (intro exI [of _ s']) simp
qed


lemma syscall_READ: "execute h (SYSCALL ''READ'') s = READ_action h s"
  by (simp add: syscall_def SystemFunctions_def SystemSubroutines_def)

text \<open>
  Claim C7.  \<^verbatim>\<open>restore k\<close> sets the data pointer to \<open>k\<close>.  The \<^verbatim>\<open>READ\<close>
  syscall, called with \<open>n\<close> variables and the count \<open>n\<close> on the stack while the
  data pointer is \<open>p\<close>, stores \<^verbatim>\<open>data[p+i]\<close> into the value of the \<open>i\<close>-th
  variable, or the default value of the variable's type when that entry is null, and
  leaves the data pointer at \<open>p + n\<close>.  When one variable is passed more than once,
  its last position decides what it holds in the end.
\<close>

theorem C7_restore_read:
  "execute h (RESTORE k) s = (Ok (), s\<lparr>dataPtr := k\<rparr>)
   \<and> (stack s = rest @ map VRef as @ [VNum (Fin (real (length as)))]
        \<and> (\<forall>a \<in> set as. objs (store s) a ''type'' = Some (VType (ScalarType (kind a)))) \<longrightarrow>
        (\<exists>s'. execute h (SYSCALL ''READ'') s = (Ok (), s')
           \<and> dataPtr s' = dataPtr s + length as \<and> stack s' = rest
           \<and> (\<forall>i < length as. (\<forall>j. i < j \<and> j < length as \<longrightarrow> as ! j \<noteq> as ! i) \<longrightarrow>
                 (let d = (if dataPtr s + i < length (data s) then data s ! (dataPtr s + i)
                           else VUndefined)
                  in objs (store s') (as ! i) ''value''
                       = Some (if d = VNull then zero_value (kind (as ! i)) else d)))))"
proof (intro conjI impI, goal_cases)
  case 1
  show ?case by simp
next
  case 2
  then have stk: "stack s = (rest @ map VRef as) @ [VNum (Fin (real (length as)))]"
    and tys: "\<forall>a \<in> set as. objs (store s) a ''type'' = Some (VType (ScalarType (kind a)))"
    by simp_all
  define s0 where "s0 = s\<lparr>stack := rest\<rparr>"
  have p: "pop s = (VNum (Fin (real (length as))), s\<lparr>stack := rest @ map VRef as\<rparr>)"
    by (rule pop_snoc [OF stk])
  have pa: "pop_args (length as) (s\<lparr>stack := rest @ map VRef as\<rparr>) = (map VRef as, s0)"
    using pop_args_append [of "s\<lparr>stack := rest @ map VRef as\<rparr>" rest "map VRef as"]
    by (simp add: s0_def)
  have rd: "READ_action h s = read_args h (map VRef as) s0"
    by (simp add: READ_action_def p pop_counted_def loop_count_nat pa)
  have tys0: "\<forall>a \<in> set as. objs (store s0) a ''type'' = Some (VType (ScalarType (kind a)))"
    using tys by (simp add: s0_def)
  from read_args_refs [OF tys0, of h] obtain s' where
    r: "read_args h (map VRef as) s0 = (Ok (), s')"
    and dp: "dataPtr s' = dataPtr s0 + length as"
    and st: "stack s' = stack s0"
    and vals: "\<forall>i < length as. (\<forall>j. i < j \<and> j < length as \<longrightarrow> as ! j \<noteq> as ! i) \<longrightarrow>
                 (let d = (if dataPtr s0 + i < length (data s0) then data s0 ! (dataPtr s0 + i)
                           else VUndefined)
                  in objs (store s') (as ! i) ''value''
                       = Some (if d = VNull then zero_value (kind (as ! i)) else d))"
    by blast
  have k: "dataPtr s0 = dataPtr s" "data s0 = data s" "stack s0 = rest"
    by (simp_all add: s0_def)
  show ?case
    using r dp st vals unfolding k syscall_READ rd by (intro exI [of _ s']) simp
qed

text \<open>
  \<^verbatim>\<open>DATA 1,,3\<close> and \<^verbatim>\<open>READ A, B\<close>: \<open>A\<close> becomes 1, \<open>B\<close> the default 0, and the
  data pointer 2.
\<close>

theorem C7_restore_read_witness:
  "stack read_vm = [] @ map VRef [1, 2] @ [VNum (Fin (real (length [1, 2 :: nat])))]
   \<and> objs (store read_vm) 1 ''type'' = Some (VType (ScalarType SINGLE))
   \<and> objs (store read_vm) 2 ''type'' = Some (VType (ScalarType SINGLE))
   \<and> fst (execute host0 (SYSCALL ''READ'') read_vm) = Ok ()
   \<and> dataPtr (snd (execute host0 (SYSCALL ''READ'') read_vm)) = 2
   \<and> objs (store (snd (execute host0 (SYSCALL ''READ'') read_vm))) 1 ''value'' = Some (VNum (Fin 1))
   \<and> objs (store (snd (execute host0 (SYSCALL ''READ'') read_vm))) 2 ''value'' = Some (VNum (Fin 0))"
proof -
  have stk: "stack read_vm = [] @ map VRef [1, 2] @ [VNum (Fin (real (length [1, 2 :: nat])))]"
    by (simp add: read_vm_def)
  have tys: "\<forall>a \<in> set [1, 2]. objs (store read_vm) a ''type'' = Some (VType (ScalarType ((\<lambda>a. SINGLE) a)))"
    by (simp add: read_vm_def ScalarVariable_def)
  have dat: "dataPtr read_vm = 0" "data read_vm = [VNum (Fin 1), VNull, VNum (Fin 3)]"
    by (simp_all add: read_vm_def example_vm_eq)
  from C7_restore_read [of host0 0 read_vm "[]" "[1, 2]" "\<lambda>a. SINGLE"] stk tys
  obtain s' where r: "execute host0 (SYSCALL ''READ'') read_vm = (Ok (), s')"
    and dp: "dataPtr s' = dataPtr read_vm + length [1, 2 :: nat]"
    and vals: "\<forall>i < length [1, 2 :: nat]. (\<forall>j. i < j \<and> j < length [1, 2 :: nat] \<longrightarrow> [1, 2 :: nat] ! j \<noteq> [1, 2] ! i) \<longrightarrow>
                 (let d = (if dataPtr read_vm + i < length (data read_vm) then data read_vm ! (dataPtr read_vm + i)
                           else VUndefined)
                  in objs (store s') ([1, 2] ! i) ''value''
                       = Some (if d = VNull then zero_value SINGLE else d))"
    by blast
  have l0: "\<forall>j. 0 < j \<and> j < length [1, 2 :: nat] \<longrightarrow> [1, 2 :: nat] ! j \<noteq> [1, 2] ! 0"
    by (auto simp add: less_Suc_eq)
  have l1: "\<forall>j. 1 < j \<and> j < length [1, 2 :: nat] \<longrightarrow> [1, 2 :: nat] ! j \<noteq> [1, 2] ! 1"
    by auto
  have v0: "objs (store s') 1 ''value'' = Some (VNum (Fin 1))"
    using vals [THEN spec, of 0] l0 by (simp add: dat)
  have v1: "objs (store s') 2 ''value'' = Some (VNum (Fin 0))"
    using vals [THEN spec, of 1] l1 by (simp add: dat)
  show ?thesis
    using stk tys r dp v0 v1 by (simp add: dat)
qed

section \<open>What instructions leave alone\<close>

text \<open>
  Every syscall leaves the program counter, the call stack, the frame pointer and the
  fields of \<open>machine_fields\<close> as they are; every syscall but \<^verbatim>\<open>PLAY\<close>,
  \<^verbatim>\<open>SLEEP\<close>, \<^verbatim>\<open>INPUT\<close>, \<^verbatim>\<open>YIELD\<close> and \<^verbatim>\<open>SPSET\<close> also leaves the
  suspended flag and the timers.  The lemmas are proved action by action.
\<close>

lemma bind_split:
  "P (bind m f) =
     ((\<forall>a s. m = (Ok a, s) \<longrightarrow> P (f a s)) \<and> (\<forall>e s. m = (Throw e, s) \<longrightarrow> P (Throw e, s)))"
proof (cases m)
  case (Pair r s)
  then show ?thesis by (cases r) auto
qed

lemma control_fields_update [simp]:
  "control_fields (s\<lparr>stack := a\<rparr>) = control_fields s"
  "control_fields (s\<lparr>store := b\<rparr>) = control_fields s"
  "control_fields (s\<lparr>io := c\<rparr>) = control_fields s"
  "control_fields (s\<lparr>pending := d\<rparr>) = control_fields s"
  "control_fields (s\<lparr>suspended := e\<rparr>) = control_fields s"
  "control_fields (s\<lparr>timers := f\<rparr>) = control_fields s"
  "control_fields (s\<lparr>draws := g\<rparr>) = control_fields s"
  "control_fields (s\<lparr>dataPtr := k\<rparr>) = control_fields s"
  by (simp_all add: control_fields_def machine_fields_def)

lemma machine_fields_update [simp]:
  "machine_fields (s\<lparr>stack := a\<rparr>) = machine_fields s"
  "machine_fields (s\<lparr>store := b\<rparr>) = machine_fields s"
  "machine_fields (s\<lparr>io := c\<rparr>) = machine_fields s"
  "machine_fields (s\<lparr>pending := d\<rparr>) = machine_fields s"
  "machine_fields (s\<lparr>suspended := e\<rparr>) = machine_fields s"
  "machine_fields (s\<lparr>timers := f\<rparr>) = machine_fields s"
  "machine_fields (s\<lparr>draws := g\<rparr>) = machine_fields s"
  "machine_fields (s\<lparr>dataPtr := k\<rparr>) = machine_fields s"
  "machine_fields (s\<lparr>pc := n\<rparr>) = machine_fields s"
  "machine_fields (s\<lparr>callstack := cs\<rparr>) = machine_fields s"
  "machine_fields (s\<lparr>frame := fr\<rparr>) = machine_fields s"
  by (simp_all add: machine_fields_def)

lemma quiet_fields_update [simp]:
  "quiet_fields (s\<lparr>stack := a\<rparr>) = quiet_fields s"
  "quiet_fields (s\<lparr>store := b\<rparr>) = quiet_fields s"
  "quiet_fields (s\<lparr>io := c\<rparr>) = quiet_fields s"
  "quiet_fields (s\<lparr>pending := d\<rparr>) = quiet_fields s"
  "quiet_fields (s\<lparr>draws := g\<rparr>) = quiet_fields s"
  "quiet_fields (s\<lparr>dataPtr := k\<rparr>) = quiet_fields s"
  by (simp_all add: quiet_fields_def)

lemma quiet_fields_prims [simp]:
  "quiet_fields (push v s) = quiet_fields s"
  "quiet_fields (cons_call c s) = quiet_fields s"
  "quiet_fields (add_pending cb s) = quiet_fields s"
  by (simp_all add: push_def cons_call_def add_pending_def)

lemma control_fields_prims [simp]:
  "control_fields (push v s) = control_fields s"
  "control_fields (cons_call c s) = control_fields s"
  "control_fields (add_pending cb s) = control_fields s"
  "control_fields (clearInterval i s) = control_fields s"
  "control_fields (suspend s) = control_fields s"
  by (simp_all add: push_def cons_call_def add_pending_def clearInterval_def suspend_def Let_def
      split: option.splits)

lemma quiet_control: "quiet_fields s' = quiet_fields s \<Longrightarrow> control_fields s' = control_fields s"
  by (simp add: quiet_fields_def)

lemma control_machine: "control_fields s' = control_fields s \<Longrightarrow> machine_fields s' = machine_fields s"
  by (simp add: control_fields_def)

lemma pop_kept:
  "pop s = (v, s1) \<Longrightarrow> quiet_fields s1 = quiet_fields s \<and> control_fields s1 = control_fields s"
  by (auto simp add: pop_def split: if_splits)

lemma pop_snd_kept [simp]:
  "quiet_fields (snd (pop s)) = quiet_fields s" "control_fields (snd (pop s)) = control_fields s"
  by (cases "pop s", simp add: pop_kept)+

lemma pop_value_kept:
  "pop_value h s = (r, s1) \<Longrightarrow> quiet_fields s1 = quiet_fields s \<and> control_fields s1 = control_fields s"
  by (auto simp add: pop_value_def split: prod.splits dest!: pop_kept)

lemma put_prop_kept:
  "put_prop t p v s = (r, s1) \<Longrightarrow> quiet_fields s1 = quiet_fields s \<and> control_fields s1 = control_fields s"
  by (auto simp add: put_prop_def split: prod.splits)

lemma put_prop_snd_kept [simp]:
  "quiet_fields (snd (put_prop t p v s)) = quiet_fields s"
  "control_fields (snd (put_prop t p v s)) = control_fields s"
  by (cases "put_prop t p v s", simp add: put_prop_kept)+

lemma getKey_kept:
  "getKeyFromBuffer h s = (v, s1) \<Longrightarrow> quiet_fields s1 = quiet_fields s \<and> control_fields s1 = control_fields s"
  by (auto simp add: getKeyFromBuffer_def)

lemma pop_args_kept:
  "pop_args n s = (vs, s1) \<Longrightarrow> quiet_fields s1 = quiet_fields s \<and> control_fields s1 = control_fields s"
proof (induction n arbitrary: s vs s1)
  case 0
  then show ?case by simp
next
  case (Suc n)
  obtain v t where p: "pop s = (v, t)" by (cases "pop s")
  obtain ws u where q: "pop_args n t = (ws, u)" by (cases "pop_args n t")
  have "u = s1" using Suc.prems p q by simp
  then show ?case
    using pop_kept [OF p] Suc.IH [OF q] by simp
qed

lemma pop_dims_kept:
  "pop_dims n s = (vs, s1) \<Longrightarrow> quiet_fields s1 = quiet_fields s \<and> control_fields s1 = control_fields s"
proof (induction n arbitrary: s vs s1)
  case 0
  then show ?case by simp
next
  case (Suc n)
  obtain v t where p: "pop s = (v, t)" by (cases "pop s")
  obtain v2 t2 where p2: "pop t = (v2, t2)" by (cases "pop t")
  obtain ws u where q: "pop_dims n t2 = (ws, u)" by (cases "pop_dims n t2")
  have "u = s1" using Suc.prems p p2 q by simp
  then show ?case
    using pop_kept [OF p] pop_kept [OF p2] Suc.IH [OF q] by simp
qed


lemma pop_counted_kept:
  "pop_counted h n s = (r, s1) \<Longrightarrow> quiet_fields s1 = quiet_fields s \<and> control_fields s1 = control_fields s"
  by (auto simp add: pop_counted_def split: option.splits prod.splits dest!: pop_args_kept)

lemmas kept_dests = pop_kept pop_value_kept put_prop_kept getKey_kept pop_counted_kept

lemma bind_inv:
  "P (snd m) \<Longrightarrow> (\<And>a t. P t \<Longrightarrow> P (snd (f a t))) \<Longrightarrow> P (snd (bind m f))"
proof (cases m)
  case (Pair r s)
  assume "P (snd m)" and "\<And>a t. P t \<Longrightarrow> P (snd (f a t))"
  then show ?thesis using Pair by (cases r) auto
qed

lemma read_args_kept:
  "quiet_fields (snd (read_args h args s)) = quiet_fields s
   \<and> control_fields (snd (read_args h args s)) = control_fields s"
proof (induction args arbitrary: s)
  case Nil
  then show ?case by simp
next
  case (Cons a args)
  let ?P = "\<lambda>t. quiet_fields t = quiet_fields s \<and> control_fields t = control_fields s"
  have ih: "\<And>t. ?P t \<Longrightarrow> ?P (snd (read_args h args t))"
    using Cons.IH by simp
  show ?case
    apply (simp only: read_args.simps Let_def)
    apply (rule bind_inv [where P = ?P])
     apply simp
    apply (rule bind_inv [where P = ?P])
     apply simp
    apply (rule bind_inv [where P = ?P])
     apply (auto split: bind_split prod.splits)[1]
    apply (erule ih)
    done
qed



lemma setVariable_kept:
  "setVariable n v s = (r, s1) \<Longrightarrow> quiet_fields s1 = quiet_fields s \<and> control_fields s1 = control_fields s"
  by (auto simp add: setVariable_def split: option.splits if_splits dest!: put_prop_kept)

lemma RND_kept:
  "quiet_fields (snd (RND_action h s)) = quiet_fields s"
  by (auto simp add: RND_action_def Let_def split: bind_split prod.splits option.splits dest!: kept_dests)

lemma CHR_kept:
  "quiet_fields (snd (CHR_action h s)) = quiet_fields s"
  by (auto simp add: CHR_action_def Let_def split: bind_split prod.splits option.splits dest!: kept_dests)

lemma INKEY_kept:
  "quiet_fields (snd (INKEY_action h s)) = quiet_fields s"
  by (auto simp add: INKEY_action_def Let_def split: bind_split prod.splits option.splits dest!: kept_dests)

lemma LEN_kept:
  "quiet_fields (snd (LEN_action h s)) = quiet_fields s"
  by (auto simp add: LEN_action_def Let_def split: bind_split prod.splits option.splits dest!: kept_dests)

lemma MID_kept:
  "quiet_fields (snd (MID_action h s)) = quiet_fields s"
  by (auto simp add: MID_action_def Let_def split: bind_split prod.splits option.splits dest!: kept_dests)

lemma LEFT_kept:
  "quiet_fields (snd (LEFT_action h s)) = quiet_fields s"
  by (auto simp add: LEFT_action_def Let_def split: bind_split prod.splits option.splits dest!: kept_dests)

lemma RIGHT_kept:
  "quiet_fields (snd (RIGHT_action h s)) = quiet_fields s"
  by (auto simp add: RIGHT_action_def Let_def split: bind_split prod.splits option.splits dest!: kept_dests)

lemma TIMER_kept:
  "quiet_fields (snd (TIMER_action h s)) = quiet_fields s"
  by (auto simp add: TIMER_action_def Let_def split: bind_split prod.splits option.splits dest!: kept_dests)

lemma PEEK_kept:
  "quiet_fields (snd (PEEK_action h s)) = quiet_fields s"
  by (auto simp add: PEEK_action_def Let_def split: bind_split prod.splits option.splits dest!: kept_dests)

lemma LCASE_kept:
  "quiet_fields (snd (LCASE_action h s)) = quiet_fields s"
  by (auto simp add: LCASE_action_def Let_def split: bind_split prod.splits option.splits dest!: kept_dests)

lemma UCASE_kept:
  "quiet_fields (snd (UCASE_action h s)) = quiet_fields s"
  by (auto simp add: UCASE_action_def Let_def split: bind_split prod.splits option.splits dest!: kept_dests)

lemma STR_kept:
  "quiet_fields (snd (STR_action h s)) = quiet_fields s"
  by (auto simp add: STR_action_def Let_def split: bind_split prod.splits option.splits dest!: kept_dests)

lemma SPACE_kept:
  "quiet_fields (snd (SPACE_action h s)) = quiet_fields s"
  by (auto simp add: SPACE_action_def Let_def split: bind_split prod.splits option.splits dest!: kept_dests)

lemma VAL_kept:
  "quiet_fields (snd (VAL_action h s)) = quiet_fields s"
  by (auto simp add: VAL_action_def Let_def split: bind_split prod.splits option.splits dest!: kept_dests)

lemma INT_kept:
  "quiet_fields (snd (INT_action h s)) = quiet_fields s"
  by (auto simp add: INT_action_def Let_def split: bind_split prod.splits option.splits dest!: kept_dests)

lemma BEEP_kept:
  "quiet_fields (snd (BEEP_action h s)) = quiet_fields s"
  by (auto simp add: BEEP_action_def Let_def split: bind_split prod.splits option.splits dest!: kept_dests)

lemma CLS_kept:
  "quiet_fields (snd (CLS_action h s)) = quiet_fields s"
  by (auto simp add: CLS_action_def Let_def split: bind_split prod.splits option.splits dest!: kept_dests)

lemma RANDOMIZE_kept:
  "quiet_fields (snd (RANDOMIZE_action h s)) = quiet_fields s"
  by (auto simp add: RANDOMIZE_action_def Let_def split: bind_split prod.splits option.splits dest!: kept_dests)

lemma BGMPLAY_kept:
  "quiet_fields (snd (BGMPLAY_action h s)) = quiet_fields s"
  by (auto simp add: BGMPLAY_action_def Let_def split: bind_split prod.splits option.splits dest!: kept_dests)

lemma BGMSTOP_kept:
  "quiet_fields (snd (BGMSTOP_action h s)) = quiet_fields s"
  by (auto simp add: BGMSTOP_action_def Let_def split: bind_split prod.splits option.splits dest!: kept_dests)

lemma SYSTEM_kept:
  "quiet_fields (snd (SYSTEM_action h s)) = quiet_fields s"
  by (auto simp add: SYSTEM_action_def Let_def split: bind_split prod.splits option.splits dest!: kept_dests)

lemma print_using_kept:
  "quiet_fields (snd (print_using_action h s)) = quiet_fields s"
  by (auto simp add: print_using_action_def Let_def split: bind_split prod.splits option.splits dest!: kept_dests)

lemma LOCATE_kept:
  "quiet_fields (snd (LOCATE_action h s)) = quiet_fields s"
  by (auto simp add: LOCATE_action_def Let_def split: bind_split prod.splits option.splits dest!: kept_dests)

lemma COLOR_kept:
  "quiet_fields (snd (COLOR_action h s)) = quiet_fields s"
  by (auto simp add: COLOR_action_def Let_def split: bind_split prod.splits option.splits dest!: kept_dests)

lemma SCREEN_kept:
  "quiet_fields (snd (SCREEN_action h s)) = quiet_fields s"
  by (auto simp add: SCREEN_action_def Let_def split: bind_split prod.splits option.splits dest!: kept_dests)

lemma SWAP_kept:
  "quiet_fields (snd (SWAP_action h s)) = quiet_fields s"
  by (auto simp add: SWAP_action_def Let_def split: bind_split prod.splits option.splits dest!: kept_dests)

lemma WIDTH_kept:
  "quiet_fields (snd (WIDTH_action h s)) = quiet_fields s"
  by (auto simp add: WIDTH_action_def Let_def split: bind_split prod.splits option.splits dest!: kept_dests)

lemma SPOFS_kept:
  "quiet_fields (snd (SPOFS_action h s)) = quiet_fields s"
  by (auto simp add: SPOFS_action_def Let_def split: bind_split prod.splits option.splits dest!: kept_dests)

lemma SPSCALE_kept:
  "quiet_fields (snd (SPSCALE_action h s)) = quiet_fields s"
  by (auto simp add: SPSCALE_action_def Let_def split: bind_split prod.splits option.splits dest!: kept_dests)

lemma SPROT_kept:
  "quiet_fields (snd (SPROT_action h s)) = quiet_fields s"
  by (auto simp add: SPROT_action_def Let_def split: bind_split prod.splits option.splits dest!: kept_dests)

lemma SPHOME_kept:
  "quiet_fields (snd (SPHOME_action h s)) = quiet_fields s"
  by (auto simp add: SPHOME_action_def Let_def split: bind_split prod.splits option.splits dest!: kept_dests)

lemma SPHIDE_kept:
  "quiet_fields (snd (SPHIDE_action h s)) = quiet_fields s"
  by (auto simp add: SPHIDE_action_def Let_def split: bind_split prod.splits option.splits dest!: kept_dests)

lemma SPSHOW_kept:
  "quiet_fields (snd (SPSHOW_action h s)) = quiet_fields s"
  by (auto simp add: SPSHOW_action_def Let_def split: bind_split prod.splits option.splits dest!: kept_dests)

lemma SPANIM_kept:
  "quiet_fields (snd (SPANIM_action h s)) = quiet_fields s"
  by (auto simp add: SPANIM_action_def Let_def split: bind_split prod.splits option.splits dest!: kept_dests)

lemma SPCLR_kept:
  "quiet_fields (snd (SPCLR_action h s)) = quiet_fields s"
  by (auto simp add: SPCLR_action_def Let_def split: bind_split prod.splits option.splits dest!: kept_dests)

lemma READ_kept:
  "quiet_fields (snd (READ_action h s)) = quiet_fields s"
  by (auto simp add: READ_action_def read_args_kept Let_def split: bind_split prod.splits dest!: kept_dests)

lemma PLAY_kept:
  "control_fields (snd (PLAY_action h s)) = control_fields s"
  by (auto simp add: PLAY_action_def Let_def split: bind_split prod.splits option.splits window_state.splits dest!: kept_dests)

lemma SLEEP_kept:
  "control_fields (snd (SLEEP_action h s)) = control_fields s"
  by (auto simp add: SLEEP_action_def Let_def split: bind_split prod.splits option.splits window_state.splits dest!: kept_dests)

lemma INPUT_kept:
  "control_fields (snd (INPUT_action h s)) = control_fields s"
  by (auto simp add: INPUT_action_def Let_def split: bind_split prod.splits option.splits window_state.splits dest!: kept_dests)

lemma YIELD_kept:
  "control_fields (snd (YIELD_action h s)) = control_fields s"
  by (auto simp add: YIELD_action_def Let_def split: bind_split prod.splits option.splits window_state.splits dest!: kept_dests)

lemma SPSET_kept:
  "control_fields (snd (SPSET_action h s)) = control_fields s"
  by (auto simp add: SPSET_action_def Let_def split: bind_split prod.splits option.splits window_state.splits dest!: kept_dests)



lemma SystemFunctions_kept_all:
  "case SystemFunctions name of
     None \<Rightarrow> True
   | Some action \<Rightarrow> quiet_fields (snd (action h s)) = quiet_fields s"
  unfolding SystemFunctions_def
  by (simp add: RND_kept CHR_kept INKEY_kept LEN_kept MID_kept LEFT_kept RIGHT_kept TIMER_kept PEEK_kept LCASE_kept UCASE_kept STR_kept SPACE_kept VAL_kept INT_kept)

lemma SystemFunctions_kept:
  assumes "SystemFunctions name = Some action"
  shows "quiet_fields (snd (action h s)) = quiet_fields s"
  using SystemFunctions_kept_all [where name = name and h = h and s = s] assms by simp

lemma SystemSubroutines_kept_all:
  "case SystemSubroutines name of
     None \<Rightarrow> True
   | Some action \<Rightarrow> control_fields (snd (action h s)) = control_fields s"
  unfolding SystemSubroutines_def
  by (simp add: PLAY_kept SLEEP_kept INPUT_kept YIELD_kept SPSET_kept
      BEEP_kept [THEN quiet_control] CLS_kept [THEN quiet_control] RANDOMIZE_kept [THEN quiet_control] BGMPLAY_kept [THEN quiet_control] BGMSTOP_kept [THEN quiet_control] SYSTEM_kept [THEN quiet_control] print_using_kept [THEN quiet_control] LOCATE_kept [THEN quiet_control] COLOR_kept [THEN quiet_control] READ_kept [THEN quiet_control] SCREEN_kept [THEN quiet_control] SWAP_kept [THEN quiet_control] WIDTH_kept [THEN quiet_control] SPOFS_kept [THEN quiet_control] SPSCALE_kept [THEN quiet_control] SPROT_kept [THEN quiet_control] SPHOME_kept [THEN quiet_control] SPHIDE_kept [THEN quiet_control] SPSHOW_kept [THEN quiet_control] SPANIM_kept [THEN quiet_control] SPCLR_kept [THEN quiet_control])

lemma SystemSubroutines_kept:
  assumes "SystemSubroutines name = Some action"
  shows "control_fields (snd (action h s)) = control_fields s"
  using SystemSubroutines_kept_all [where name = name and h = h and s = s] assms by simp



lemma pop_dims_snd_kept [simp]:
  "quiet_fields (snd (pop_dims n s)) = quiet_fields s"
  "control_fields (snd (pop_dims n s)) = control_fields s"
  by (cases "pop_dims n s", simp add: pop_dims_kept)+

lemma syscall_inline_kept:
  assumes "arg = ''print'' \<or> arg = ''alloc_array'' \<or> arg = ''print_comma'' \<or> arg = ''print_tab''
           \<or> arg = ''alloc_scalar''"
  shows "quiet_fields (snd (syscall h arg s)) = quiet_fields s"
  using assms unfolding syscall_def
  by (auto simp add: Let_def split_beta split: bind_split option.splits)


lemma syscall_table:
  assumes "\<not> (arg = ''print'' \<or> arg = ''alloc_array'' \<or> arg = ''print_comma''
              \<or> arg = ''print_tab'' \<or> arg = ''alloc_scalar'')"
  shows "syscall h arg s =
     (case SystemFunctions arg of
        Some action \<Rightarrow> action h s
      | None \<Rightarrow>
          (case SystemSubroutines arg of
             Some action \<Rightarrow> action h s
           | None \<Rightarrow>
               (Throw (RuntimeError UKNOWN_SYSCALL (''Unknown syscall: '' @ arg) None), s)))"
  using assms by (simp add: syscall_def)

lemma syscall_kept: "control_fields (snd (syscall h arg s)) = control_fields s"
proof (cases "arg = ''print'' \<or> arg = ''alloc_array'' \<or> arg = ''print_comma''
              \<or> arg = ''print_tab'' \<or> arg = ''alloc_scalar''")
  case True
  then show ?thesis by (rule syscall_inline_kept [THEN quiet_control])
next
  case False
  show ?thesis
  proof (cases "SystemFunctions arg")
    case (Some action)
    then show ?thesis
      using SystemFunctions_kept [OF Some, of h s, THEN quiet_control]
      by (simp add: syscall_table [OF False])
  next
    case None
    show ?thesis
    proof (cases "SystemSubroutines arg")
      case (Some action)
      then show ?thesis
        using SystemSubroutines_kept [OF Some, of h s] None by (simp add: syscall_table [OF False])
    next
      case None2: None
      then show ?thesis using None by (simp add: syscall_table [OF False])
    qed
  qed
qed


text \<open>
  No instruction writes a field of \<open>machine_fields\<close>.  An instruction that throws has
  not yet written the program counter, the call stack or the frame pointer, and unless
  it is one of the three syscalls that suspend before they can throw, it has not
  suspended the machine either.
\<close>

lemma setVariable_snd_kept [simp]:
  "quiet_fields (snd (setVariable n v s)) = quiet_fields s"
  "control_fields (snd (setVariable n v s)) = control_fields s"
  by (cases "setVariable n v s", simp add: setVariable_kept)+

lemma machine_snd_kept [simp]:
  "machine_fields (snd (pop s)) = machine_fields s"
  "machine_fields (snd (put_prop t p v s)) = machine_fields s"
  "machine_fields (snd (setVariable n v s)) = machine_fields s"
  "machine_fields (snd (syscall h arg s)) = machine_fields s"
  "machine_fields (push v s) = machine_fields s"
  by (rule control_machine, simp add: syscall_kept)+






section \<open>The last random number\<close>







lemma lrn_update [simp]:
  "lastRandomNumber (emit e s) = lastRandomNumber s"
  "lastRandomNumber (suspend s) = lastRandomNumber s"
  "lastRandomNumber (clearInterval i s) = lastRandomNumber s"
  "lastRandomNumber (setInterval s) = lastRandomNumber s"
  "lastRandomNumber (cons_call c s) = lastRandomNumber s"
  "lastRandomNumber (push v s) = lastRandomNumber s"
  by (simp_all add: emit_def suspend_def clearInterval_def setInterval_def cons_call_def push_def
      Let_def split: option.splits)














section \<open>Errors in the dispatch loop\<close>

lemma suspended_update [simp]:
  "suspended (emit e s) = suspended s"
  "suspended (suspend s)"
  "suspended (clearInterval i s) = suspended s"
  "events (emit e s) = events s @ [e]"
  "events (suspend s) = events s"
  "events (clearInterval i s) = events s"
  "pc (emit e s) = pc s"
  "instructions (emit e s) = instructions s"
  "interval (emit e s) = interval s"
  by (simp_all add: emit_def suspend_def clearInterval_def Let_def split: option.splits)







lemma rnd_vm_stack: "stack rnd_vm = [] @ [VNum (Fin 0), VNum (Fin 1)]"
  by (simp add: rnd_vm_def rnd_program_def example_program_def reset_def VirtualMachine_def
      runOneInstruction_def syscall_def SystemFunctions_def RND_action_def
      empty_store_def alloc_def cons_call_def push_def pop_def Let_def)








section \<open>A bad character in the text\<close>













end
